theory Spec2Isabelle
  imports Main "HOL-Library.Char_ord" "HOL-Library.List_Lexorder"
begin

section \<open>Python exceptions\<close>

text \<open>
  Every \<^verbatim>\<open>raise\<close> of the sources is a value. An exception carries its class and the
  text that \<^verbatim>\<open>str(e)\<close> gives. \<open>NonException\<close> stands for the classes that derive from
  \<^verbatim>\<open>BaseException\<close> but not from \<^verbatim>\<open>Exception\<close> (\<^verbatim>\<open>KeyboardInterrupt\<close>, \<^verbatim>\<open>SystemExit\<close>);
  \<open>RerunException\<close> is the control exception that \<^verbatim>\<open>st.rerun()\<close> raises, which is
  also outside \<^verbatim>\<open>Exception\<close>. A handler \<^verbatim>\<open>except Exception\<close> catches exactly the
  classes for which \<open>is_Exception\<close> holds; a bare \<^verbatim>\<open>except:\<close> catches all of them.
\<close>

datatype exc_class =
    ValueError | FileNotFoundError | TimeoutExpired | TypeError | KeyError
  | UnicodeDecodeError | OtherException | NonException | RerunException

datatype py_exception = Raise exc_class string

fun exc_class_of :: "py_exception \<Rightarrow> exc_class" where
  "exc_class_of (Raise c m) = c"

fun str :: "py_exception \<Rightarrow> string" where
  "str (Raise c m) = m"

fun is_Exception :: "py_exception \<Rightarrow> bool" where
  "is_Exception (Raise NonException m) = False"
| "is_Exception (Raise RerunException m) = False"
| "is_Exception (Raise c m) = True"

text \<open>The emoji of the user-visible messages, as their UTF-8 bytes.\<close>

definition check_mark :: string where
  "check_mark = [CHR 0xE2, CHR 0x9C, CHR 0x85]"

definition warning_sign :: string where
  "warning_sign = [CHR 0xE2, CHR 0x9A, CHR 0xA0, CHR 0xEF, CHR 0xB8, CHR 0x8F]"

definition cross_mark :: string where
  "cross_mark = [CHR 0xE2, CHR 0x9D, CHR 0x8C]"

definition bulb :: string where
  "bulb = [CHR 0xF0, CHR 0x9F, CHR 0x92, CHR 0xA1]"

section \<open>State prober (app.py, check_database_status and init_session_state)\<close>

text \<open>
  What the probe reads: whether \<^verbatim>\<open>DB_PATH\<close> exists, and what the DuckDB driver does
  when the store is opened read-only, when the two catalog counts are queried and when
  the connection is closed. Each driver call either raises or returns.
\<close>

record storage =
  db_exists :: bool
  connect_raises :: "py_exception option"
  raw_count :: "py_exception + int"
  marts_count :: "py_exception + int"
  close_raises :: "py_exception option"

text \<open>The body of the \<^verbatim>\<open>try\<close> block of \<^verbatim>\<open>check_database_status\<close>, statement by statement.\<close>

definition probe_body :: "storage \<Rightarrow> py_exception + (bool \<times> string)" where
  "probe_body s =
     (case connect_raises s of
        Some e \<Rightarrow> Inl e
      | None \<Rightarrow>
         (case raw_count s of
            Inl e \<Rightarrow> Inl e
          | Inr r \<Rightarrow>
             (let raw_exists = (r > 0) in
              case marts_count s of
                Inl e \<Rightarrow> Inl e
              | Inr m \<Rightarrow>
                 (let marts_exist = (m > 0) in
                  case close_raises s of
                    Some e \<Rightarrow> Inl e
                  | None \<Rightarrow>
                     (if marts_exist then
                        Inr (True, check_mark @ '' Ready - Database & models built'')
                      else if raw_exists then
                        Inr (False, warning_sign @ '' Data loaded - Run dbt build'')
                      else
                        Inr (False, warning_sign @ '' Database exists but empty''))))))"

definition check_database_status :: "storage \<Rightarrow> py_exception + (bool \<times> string)" where
  "check_database_status s =
     (if \<not> db_exists s then Inr (False, ''Database not found'')
      else
        (case probe_body s of
           Inr r \<Rightarrow> Inr r
         | Inl e \<Rightarrow>
            (if is_Exception e then Inr (False, ''Database error: '' @ str e)
             else Inl e)))"

text \<open>
  \<^verbatim>\<open>st.session_state\<close>: a key that has not been set yet is \<open>None\<close>. The status values
  are the source's strings.
\<close>

record session_state =
  data_loaded :: "bool option"
  dbt_built :: "bool option"
  pipeline_status :: "string option"

definition fresh_session :: session_state where
  "fresh_session = \<lparr>data_loaded = None, dbt_built = None, pipeline_status = None\<rparr>"

definition init_session_state :: "storage \<Rightarrow> session_state \<Rightarrow> py_exception + session_state" where
  "init_session_state s ss =
     (let ss1 = (if data_loaded ss = None then ss\<lparr>data_loaded := Some False\<rparr> else ss);
          ss2 = (if dbt_built ss1 = None then ss1\<lparr>dbt_built := Some False\<rparr> else ss1)
      in if pipeline_status ss2 = None then
           (if db_exists s then
              (case check_database_status s of
                 Inl e \<Rightarrow> Inl e
               | Inr (db_ready, msg) \<Rightarrow>
                  (if db_ready then Inr (ss2\<lparr>pipeline_status := Some ''dbt_built''\<rparr>)
                   else Inr (ss2\<lparr>pipeline_status := Some ''not_started''\<rparr>)))
            else Inr (ss2\<lparr>pipeline_status := Some ''not_started''\<rparr>))
         else Inr ss2)"

text \<open>
  The classification table of the specification (section 4.2), written from its words, to
  be compared with what the code derives.
\<close>

definition spec_classify :: "bool \<Rightarrow> bool \<Rightarrow> bool \<Rightarrow> string" where
  "spec_classify databaseExists hasRawSchema hasMartsSchema =
     (if \<not> databaseExists then ''not_started''
      else if hasMartsSchema then ''dbt_built''
      else if hasRawSchema then ''data_loaded''
      else ''not_started'')"

section \<open>Transform invocation (app.py, run_dbt_command)\<close>

text \<open>
  The external command as \<^verbatim>\<open>subprocess.run\<close> sees it: the launch may raise (the
  executable is missing, say); otherwise the process exits after \<open>runtime\<close> seconds
  (\<open>None\<close>: it never exits) with an exit code and its two output streams. With
  \<^verbatim>\<open>text=True\<close> the captured bytes are decoded when the process has exited, and
  that may raise as well (\<^verbatim>\<open>UnicodeDecodeError\<close> on bytes that are not text):
  \<open>output_raises\<close>.
\<close>

record process =
  launch_raises :: "py_exception option"
  runtime :: "nat option"
  returncode :: int
  stdout :: string
  stderr :: string
  output_raises :: "py_exception option"

record completed_process =
  cp_returncode :: int
  cp_stdout :: string
  cp_stderr :: string

text \<open>
  \<^verbatim>\<open>subprocess.run(cmd, capture_output=True, text=True, timeout=t)\<close>: a process that has
  not exited after \<open>t\<close> seconds is killed and \<^verbatim>\<open>TimeoutExpired\<close> is raised; the output
  of a process that has exited in time is decoded, and the completed process is returned
  when that does not raise.
\<close>

definition subprocess_run :: "process \<Rightarrow> nat \<Rightarrow> py_exception + completed_process" where
  "subprocess_run p t =
     (case launch_raises p of
        Some e \<Rightarrow> Inl e
      | None \<Rightarrow>
         (case runtime p of
            None \<Rightarrow> Inl (Raise TimeoutExpired ''timed out'')
          | Some d \<Rightarrow>
             (if d > t then Inl (Raise TimeoutExpired ''timed out'')
              else
                (case output_raises p of
                   Some e \<Rightarrow> Inl e
                 | None \<Rightarrow>
                     Inr \<lparr>cp_returncode = returncode p, cp_stdout = stdout p,
                          cp_stderr = stderr p\<rparr>))))"

definition DBT_PROFILES_DIR :: "string \<Rightarrow> string" where
  "DBT_PROFILES_DIR project_root = project_root @ ''/dbt''"

definition DBT_PROJECT_DIR :: "string \<Rightarrow> string" where
  "DBT_PROJECT_DIR project_root = project_root @ ''/dbt/ecommerce_analytics''"

definition dbt_cmd :: "string \<Rightarrow> string \<Rightarrow> string list \<Rightarrow> string list" where
  "dbt_cmd project_root command args =
     [''dbt'', command, ''--profiles-dir'', DBT_PROFILES_DIR project_root,
      ''--project-dir'', DBT_PROJECT_DIR project_root] @ args"

text \<open>
  \<open>sh\<close> is the operating system: it maps the command line to the process it starts.
  The two handlers are tried in the source's order.
\<close>

definition run_dbt_command ::
  "(string list \<Rightarrow> process) \<Rightarrow> string \<Rightarrow> string \<Rightarrow> string list \<Rightarrow> py_exception + (bool \<times> string)"
where
  "run_dbt_command sh project_root command args =
     (let cmd = dbt_cmd project_root command args in
      case subprocess_run (sh cmd) 300 of
        Inr result \<Rightarrow> Inr (cp_returncode result = 0, cp_stdout result @ cp_stderr result)
      | Inl e \<Rightarrow>
         (if exc_class_of e = TimeoutExpired then
            Inr (False, ''Command timed out after 5 minutes'')
          else if is_Exception e then
            Inr (False, ''Error running dbt: '' @ str e)
          else Inl e))"

section \<open>Credentials from the application's secrets (app.py, get_kaggle_credentials)\<close>

text \<open>
  \<^verbatim>\<open>st.secrets\<close>: reading it may raise (there is no secrets file, or it does not
  parse); otherwise the top-level entry \<^verbatim>\<open>kaggle\<close> is absent, a table of strings, or a
  plain string. Credentials are strings, so other TOML values are left out.
\<close>

datatype kaggle_entry = KTable "string \<rightharpoonup> string" | KString string

datatype secrets_src = SecretsError py_exception | Secrets "kaggle_entry option"

text \<open>\<^verbatim>\<open>st.secrets.get("kaggle", {})\<close> and \<^verbatim>\<open>st.secrets["kaggle"]\<close>.\<close>

fun secrets_get_kaggle :: "secrets_src \<Rightarrow> py_exception + kaggle_entry" where
  "secrets_get_kaggle (SecretsError e) = Inl e"
| "secrets_get_kaggle (Secrets None) = Inr (KTable Map.empty)"
| "secrets_get_kaggle (Secrets (Some k)) = Inr k"

fun secrets_index_kaggle :: "secrets_src \<Rightarrow> py_exception + kaggle_entry" where
  "secrets_index_kaggle (SecretsError e) = Inl e"
| "secrets_index_kaggle (Secrets None) = Inl (Raise KeyError ''kaggle'')"
| "secrets_index_kaggle (Secrets (Some k)) = Inr k"

text \<open>
  Python's \<^verbatim>\<open>in\<close>: on a table it tests the keys, on a string it tests for a substring.
\<close>

fun is_prefix :: "string \<Rightarrow> string \<Rightarrow> bool" where
  "is_prefix [] ys = True"
| "is_prefix (x # xs) [] = False"
| "is_prefix (x # xs) (y # ys) = (x = y \<and> is_prefix xs ys)"

fun is_substring :: "string \<Rightarrow> string \<Rightarrow> bool" where
  "is_substring xs [] = (xs = [])"
| "is_substring xs (y # ys) = (is_prefix xs (y # ys) \<or> is_substring xs ys)"

fun py_in :: "string \<Rightarrow> kaggle_entry \<Rightarrow> bool" where
  "py_in k (KTable t) = (t k \<noteq> None)"
| "py_in k (KString s) = is_substring k s"

text \<open>Python's subscript with a string key: a string cannot be indexed by a string.\<close>

fun py_getitem :: "kaggle_entry \<Rightarrow> string \<Rightarrow> py_exception + string" where
  "py_getitem (KTable t) k = (case t k of None \<Rightarrow> Inl (Raise KeyError k) | Some v \<Rightarrow> Inr v)"
| "py_getitem (KString s) k = Inl (Raise TypeError ''string indices must be integers'')"

definition secrets_kaggle_item :: "secrets_src \<Rightarrow> string \<Rightarrow> py_exception + string" where
  "secrets_kaggle_item sec k =
     (case secrets_index_kaggle sec of Inl e \<Rightarrow> Inl e | Inr t \<Rightarrow> py_getitem t k)"

definition secrets_kaggle_has :: "secrets_src \<Rightarrow> string \<Rightarrow> py_exception + bool" where
  "secrets_kaggle_has sec k =
     (case secrets_get_kaggle sec of Inl e \<Rightarrow> Inl e | Inr t \<Rightarrow> Inr (py_in k t))"

type_synonym credentials = "string option \<times> string option \<times> string option"

text \<open>
  The \<^verbatim>\<open>try\<close> block: \<open>Inr None\<close> when neither branch returns and control falls out of
  the block.
\<close>

definition credentials_try :: "secrets_src \<Rightarrow> py_exception + credentials option" where
  "credentials_try sec =
     (case secrets_kaggle_has sec ''api_token'' of
        Inl e \<Rightarrow> Inl e
      | Inr True \<Rightarrow>
         (case secrets_kaggle_item sec ''api_token'' of
            Inl e \<Rightarrow> Inl e
          | Inr tok \<Rightarrow> Inr (Some (Some tok, None, None)))
      | Inr False \<Rightarrow>
         (case secrets_kaggle_has sec ''username'' of
            Inl e \<Rightarrow> Inl e
          | Inr False \<Rightarrow> Inr None
          | Inr True \<Rightarrow>
             (case secrets_kaggle_has sec ''key'' of
                Inl e \<Rightarrow> Inl e
              | Inr False \<Rightarrow> Inr None
              | Inr True \<Rightarrow>
                 (case secrets_kaggle_item sec ''username'' of
                    Inl e \<Rightarrow> Inl e
                  | Inr u \<Rightarrow>
                     (case secrets_kaggle_item sec ''key'' of
                        Inl e \<Rightarrow> Inl e
                      | Inr k \<Rightarrow> Inr (Some (None, Some u, Some k)))))))"

text \<open>
  The handler is a bare \<^verbatim>\<open>except: pass\<close>, so every exception class is swallowed. The
  result is still a sum, so that "it never raises" is a statement and not a type.
\<close>

definition get_kaggle_credentials :: "secrets_src \<Rightarrow> py_exception + credentials" where
  "get_kaggle_credentials sec =
     (case credentials_try sec of
        Inr (Some c) \<Rightarrow> Inr c
      | Inr None \<Rightarrow> Inr (None, None, None)
      | Inl e \<Rightarrow> Inr (None, None, None))"

section \<open>The process's surroundings\<close>

text \<open>
  What the scripts read and write: the environment variables, the credentials file of
  the Kaggle client, the database file, the directory of downloaded CSV files, and what
  has been printed. \<open>api_calls\<close> counts the requests made to the dataset API and
  \<open>dbt_calls\<close> the dbt processes started. \<open>putenv_raises\<close> is what the platform
  raises, if anything, when a variable is given a value that it does not accept.
\<close>

type_synonym row = "string list"

type_synonym csv_file = "string \<times> row list"

record database =
  schemas :: "string list"
  tables :: "((string \<times> string) \<times> row list) list"

datatype event = Print string | PrintRows string nat

record world =
  environ :: "string \<rightharpoonup> string"
  home_dir :: string
  kaggle_json_exists :: bool
  db_file :: "database option"
  raw_data_dir :: "csv_file list"
  printed :: "event list"
  api_calls :: nat
  dbt_calls :: nat
  putenv_raises :: "string \<Rightarrow> string \<Rightarrow> py_exception option"

text \<open>
  The collaborators outside the repository: the file system calls that may fail, the
  Kaggle client (given the environment and whether its credentials file exists, it
  raises or delivers the extracted CSV files), the DuckDB driver (opening the file and
  running one \<^verbatim>\<open>CREATE OR REPLACE TABLE\<close> for a CSV file may raise), and the shell
  that starts dbt.
\<close>

record externals =
  unlink_raises :: "py_exception option"
  mkdir_raises :: "py_exception option"
  import_kaggle_raises :: "py_exception option"
  kaggle_fetch :: "(string \<rightharpoonup> string) \<Rightarrow> bool \<Rightarrow> py_exception + csv_file list"
  duckdb_connect_raises :: "py_exception option"
  create_table_raises :: "string \<Rightarrow> py_exception option"
  duckdb_close_raises :: "py_exception option"
  dbt :: "string list \<Rightarrow> process"

section \<open>Credential resolver (scripts/download_and_load_data.py, setup_kaggle_credentials)\<close>

text \<open>Python's truth value of an optional string: \<^verbatim>\<open>None\<close> and \<^verbatim>\<open>""\<close> are false.\<close>

definition truthy :: "string option \<Rightarrow> bool" where
  "truthy x = (case x of None \<Rightarrow> False | Some s \<Rightarrow> s \<noteq> [])"

definition print :: "string \<Rightarrow> world \<Rightarrow> world" where
  "print s w = w\<lparr>printed := printed w @ [Print s]\<rparr>"

text \<open>
  \<^verbatim>\<open>os.environ[k] = v\<close>: a value that holds a NUL byte is refused with
  \<^verbatim>\<open>ValueError\<close>, and the platform may refuse others; a refused assignment raises and
  writes nothing.
\<close>

definition putenv_error :: "world \<Rightarrow> string \<Rightarrow> string \<Rightarrow> py_exception option" where
  "putenv_error w k v =
     (if CHR 0x00 \<in> set v then Some (Raise ValueError ''embedded null byte'')
      else putenv_raises w k v)"

definition setenv :: "string \<Rightarrow> string \<Rightarrow> world \<Rightarrow> world \<times> py_exception option" where
  "setenv k v w =
     (case putenv_error w k v of
        Some e \<Rightarrow> (w, Some e)
      | None \<Rightarrow> (w\<lparr>environ := (environ w)(k \<mapsto> v)\<rparr>, None))"

text \<open>The text of the \<^verbatim>\<open>ValueError\<close> of the last branch, line by line.\<close>

definition newline :: string where
  "newline = [CHR 0x0A]"

definition apostrophe :: string where
  "apostrophe = [CHR 0x27]"

definition credentials_help :: string where
  "credentials_help =
       ''Kaggle credentials not found! Please provide them via:'' @ newline
       @ newline
       @ ''NEW FORMAT (recommended):'' @ newline
       @ ''  - Environment: export KAGGLE_API_TOKEN='' @ apostrophe @ ''your_token_here'' @ apostrophe @ newline
       @ ''  - Parameter: download_and_load_data(api_token='' @ apostrophe @ ''your_token_here'' @ apostrophe @ '')'' @ newline
       @ newline
       @ ''LEGACY FORMAT:'' @ newline
       @ ''  - Environment: export KAGGLE_USERNAME='' @ apostrophe @ ''...'' @ apostrophe @ '' KAGGLE_KEY='' @ apostrophe @ ''...'' @ apostrophe @ newline
       @ ''  - Parameters: download_and_load_data(username='' @ apostrophe @ ''...'' @ apostrophe @ '', key='' @ apostrophe @ ''...'' @ apostrophe @ '')'' @ newline
       @ ''  - File: ~/.kaggle/kaggle.json''"

definition credentials_not_found :: py_exception where
  "credentials_not_found = Raise ValueError credentials_help"

text \<open>
  The function returns nothing: what it does is the variables it sets, the line it
  prints, and what it raises (\<open>Some e\<close>: it raised \<open>e\<close>): the \<^verbatim>\<open>ValueError\<close> of its
  last branch, or what a refused assignment to \<^verbatim>\<open>os.environ\<close> raises, before the line
  is printed. Printing is taken to succeed.
\<close>

definition setup_kaggle_credentials ::
  "string option \<Rightarrow> string option \<Rightarrow> string option \<Rightarrow> world \<Rightarrow> world \<times> py_exception option"
where
  "setup_kaggle_credentials api_token username key w =
     (if truthy api_token then
        (case setenv ''KAGGLE_API_TOKEN'' (the api_token) w of
           (w1, Some e) \<Rightarrow> (w1, Some e)
         | (w1, None) \<Rightarrow> (print ''Using provided Kaggle API token (new format)'' w1, None))
      else if truthy (environ w ''KAGGLE_API_TOKEN'') then
        (print ''Using Kaggle API token from environment variable (new format)'' w, None)
      else if truthy username \<and> truthy key then
        (case setenv ''KAGGLE_USERNAME'' (the username) w of
           (w1, Some e) \<Rightarrow> (w1, Some e)
         | (w1, None) \<Rightarrow>
            (case setenv ''KAGGLE_KEY'' (the key) w1 of
               (w2, Some e) \<Rightarrow> (w2, Some e)
             | (w2, None) \<Rightarrow>
                 (print ''Using provided Kaggle credentials (legacy format)'' w2, None)))
      else if truthy (environ w ''KAGGLE_USERNAME'') \<and> truthy (environ w ''KAGGLE_KEY'') then
        (print ''Using Kaggle credentials from environment variables (legacy format)'' w,
         None)
      else
        (let kaggle_json = home_dir w @ ''/.kaggle/kaggle.json'' in
         if kaggle_json_exists w then
           (print (''Using Kaggle credentials from '' @ kaggle_json) w, None)
         else (w, Some credentials_not_found)))"

text \<open>
  The import of the client, the resolver, then the client's \<^verbatim>\<open>authenticate\<close> and
  \<^verbatim>\<open>dataset_download_files\<close> taken together as one request that raises or
  delivers the extracted files into the directory, replacing files of the same name.
\<close>

definition download_kaggle_dataset ::
  "externals \<Rightarrow> string option \<Rightarrow> string option \<Rightarrow> string option \<Rightarrow> world
     \<Rightarrow> world \<times> py_exception option"
where
  "download_kaggle_dataset ext api_token username key w =
     (case import_kaggle_raises ext of
        Some e \<Rightarrow> (w, Some e)
      | None \<Rightarrow>
         (case setup_kaggle_credentials api_token username key w of
            (w1, Some e) \<Rightarrow> (w1, Some e)
          | (w1, None) \<Rightarrow>
             (let w2 = w1\<lparr>api_calls := api_calls w1 + 1\<rparr> in
              case kaggle_fetch ext (environ w2) (kaggle_json_exists w2) of
                Inl e \<Rightarrow> (w2, Some e)
              | Inr files \<Rightarrow>
                 (print ''Download complete!''
                    (w2\<lparr>raw_data_dir :=
                          files @ filter (\<lambda>f. fst f \<notin> set (map fst files)) (raw_data_dir w2)\<rparr>),
                  None))))"

section \<open>Load stage (load_csv_to_duckdb and scripts/load_raw_data.py)\<close>

text \<open>
  \<^verbatim>\<open>Path.stem\<close>: the file name without its last suffix; a dot at the start or at the
  end of the name does not start a suffix. \<open>rfind\<close> is Python's \<^verbatim>\<open>str.rfind\<close> for one
  character.
\<close>

fun rfind :: "string \<Rightarrow> char \<Rightarrow> int" where
  "rfind [] c = -1"
| "rfind (x # xs) c =
     (let i = rfind xs c in if i \<ge> 0 then i + 1 else if x = c then 0 else -1)"

definition stem :: "string \<Rightarrow> string" where
  "stem name =
     (let i = rfind name (CHR ''.'') in
      if 0 < i \<and> i < int (length name) - 1 then take (nat i) name else name)"

definition ends_with :: "string \<Rightarrow> string \<Rightarrow> bool" where
  "ends_with suffix name =
     (length suffix \<le> length name \<and> drop (length name - length suffix) name = suffix)"

definition glob_csv :: "csv_file list \<Rightarrow> csv_file list" where
  "glob_csv dir = filter (\<lambda>f. ends_with ''.csv'' (fst f)) dir"

text \<open>
  DuckDB compares identifiers without regard to case and keeps the spelling given at
  creation; \<open>ident\<close> folds the ASCII letters.
\<close>

definition lower :: "char \<Rightarrow> char" where
  "lower c =
     (if CHR ''A'' \<le> c \<and> c \<le> CHR ''Z'' then char_of (of_char c + (32::nat)) else c)"

definition ident :: "string \<times> string \<Rightarrow> string \<times> string" where
  "ident k = (map lower (fst k), map lower (snd k))"

definition empty_database :: database where
  "empty_database = \<lparr>schemas = [], tables = []\<rparr>"

definition create_schema_if_not_exists :: "string \<Rightarrow> database \<Rightarrow> database" where
  "create_schema_if_not_exists sch d =
     (if map lower sch \<in> set (map (map lower) (schemas d)) then d
      else d\<lparr>schemas := schemas d @ [sch]\<rparr>)"

text \<open>
  \<^verbatim>\<open>CREATE OR REPLACE TABLE\<close>: a table of that name is dropped, and the new table is
  entered in the catalog.
\<close>

definition replace_table ::
  "string \<times> string \<Rightarrow> row list \<Rightarrow> ((string \<times> string) \<times> row list) list
     \<Rightarrow> ((string \<times> string) \<times> row list) list"
where
  "replace_table k rows ts = filter (\<lambda>e. ident (fst e) \<noteq> ident k) ts @ [(k, rows)]"

definition create_or_replace_table :: "string \<Rightarrow> string \<Rightarrow> row list \<Rightarrow> database \<Rightarrow> database" where
  "create_or_replace_table sch t rows d = d\<lparr>tables := replace_table (sch, t) rows (tables d)\<rparr>"

text \<open>All tables that the catalog holds under a name, and \<^verbatim>\<open>SELECT COUNT(*)\<close>.\<close>

definition tables_named :: "database \<Rightarrow> string \<Rightarrow> string \<Rightarrow> row list list" where
  "tables_named d sch t = map snd (filter (\<lambda>e. ident (fst e) = ident (sch, t)) (tables d))"

definition select_count :: "string \<Rightarrow> string \<Rightarrow> database \<Rightarrow> py_exception + nat" where
  "select_count sch t d =
     (case tables_named d sch t of
        [] \<Rightarrow> Inl (Raise OtherException ''Catalog Error: table does not exist'')
      | rows # _ \<Rightarrow> Inr (length rows))"

text \<open>
  The loop over the sorted files, the same in both scripts. The line printed for a table
  is kept as the table name and the row count it reports; the banner lines around the
  stages are left out. Every statement is committed as it runs, so an exception leaves
  the tables loaded before it.
\<close>

fun load_loop ::
  "(string \<Rightarrow> py_exception option) \<Rightarrow> string \<Rightarrow> csv_file list \<Rightarrow> database \<Rightarrow> event list
     \<Rightarrow> (database \<times> event list) \<times> py_exception option"
where
  "load_loop fails sch [] d out = ((d, out), None)"
| "load_loop fails sch (csv_file # rest) d out =
     (let table_name = stem (fst csv_file) in
      case fails (fst csv_file) of
        Some e \<Rightarrow> ((d, out), Some e)
      | None \<Rightarrow>
         (let d1 = create_or_replace_table sch table_name (snd csv_file) d in
          case select_count sch table_name d1 of
            Inl e \<Rightarrow> ((d1, out), Some e)
          | Inr row_count \<Rightarrow>
              load_loop fails sch rest d1 (out @ [PrintRows table_name row_count])))"

text \<open>
  The catalog after the loop has run over \<open>fs\<close> without an exception: one
  \<^verbatim>\<open>CREATE OR REPLACE TABLE\<close> for each file, in order.
\<close>

definition loaded_tables ::
  "string \<Rightarrow> csv_file list \<Rightarrow> ((string \<times> string) \<times> row list) list
     \<Rightarrow> ((string \<times> string) \<times> row list) list"
where
  "loaded_tables sch fs ts = fold (\<lambda>f. replace_table (sch, stem (fst f)) (snd f)) fs ts"

text \<open>
  \<^verbatim>\<open>duckdb.connect\<close> creates the database file when there is none. The open connection,
  the schema and the loop, as both scripts have them.
\<close>

definition connect_and_load ::
  "externals \<Rightarrow> string \<Rightarrow> csv_file list \<Rightarrow> world \<Rightarrow> world \<times> py_exception option"
where
  "connect_and_load ext sch csv_files w =
     (case duckdb_connect_raises ext of
        Some e \<Rightarrow> (w, Some e)
      | None \<Rightarrow>
         (let d0 = (case db_file w of None \<Rightarrow> empty_database | Some d \<Rightarrow> d);
              d1 = create_schema_if_not_exists sch d0
          in case load_loop (create_table_raises ext) sch (sort_key fst csv_files) d1 (printed w) of
               ((d2, out), Some e) \<Rightarrow> (w\<lparr>db_file := Some d2, printed := out\<rparr>, Some e)
             | ((d2, out), None) \<Rightarrow>
                 (case duckdb_close_raises ext of
                    Some e \<Rightarrow> (w\<lparr>db_file := Some d2, printed := out\<rparr>, Some e)
                  | None \<Rightarrow>
                     (print ''Complete!'' (w\<lparr>db_file := Some d2, printed := out\<rparr>), None))))"

definition load_csv_to_duckdb ::
  "externals \<Rightarrow> string \<Rightarrow> string \<Rightarrow> world \<Rightarrow> world \<times> py_exception option"
where
  "load_csv_to_duckdb ext csv_dir sch w =
     (let csv_files = glob_csv (raw_data_dir w) in
      if csv_files = [] then
        (w, Some (Raise FileNotFoundError (''No CSV files found in '' @ csv_dir)))
      else connect_and_load ext sch csv_files w)"

definition load_raw_data :: "externals \<Rightarrow> world \<Rightarrow> world \<times> py_exception option" where
  "load_raw_data ext w =
     (let csv_files = glob_csv (raw_data_dir w) in
      if csv_files = [] then
        (print ''No CSV files found. Run: python scripts/download_data.py'' w, None)
      else connect_and_load ext ''raw'' csv_files w)"

section \<open>Pipeline driver (download_and_load_data and the Data Pipeline page of app.py)\<close>

text \<open>
  The application always passes the project root and keeps the defaults of the dataset
  name and of the database name, so these are fixed here.
\<close>

definition download_and_load_data ::
  "externals \<Rightarrow> string option \<Rightarrow> string option \<Rightarrow> string option \<Rightarrow> string \<Rightarrow> world
     \<Rightarrow> world \<times> (py_exception + string)"
where
  "download_and_load_data ext kaggle_api_token kaggle_username kaggle_key project_root w =
     (let raw_data_dir_path = project_root @ ''/data/raw'';
          db_path = project_root @ ''/ecommerce.duckdb''
      in case mkdir_raises ext of
           Some e \<Rightarrow> (w, Inl e)
         | None \<Rightarrow>
            (case download_kaggle_dataset ext kaggle_api_token kaggle_username kaggle_key w of
               (w1, Some e) \<Rightarrow> (w1, Inl e)
             | (w1, None) \<Rightarrow>
                (case load_csv_to_duckdb ext raw_data_dir_path ''raw'' w1 of
                   (w2, Some e) \<Rightarrow> (w2, Inl e)
                 | (w2, None) \<Rightarrow> (w2, Inr db_path))))"

text \<open>
  The application: the session state, the surroundings, and what the page has shown.
\<close>

datatype ui = St_error string | St_success string | St_info string | St_code string

record app =
  session :: session_state
  app_world :: world
  shown :: "ui list"

definition set_status :: "string \<Rightarrow> app \<Rightarrow> app" where
  "set_status v a = a\<lparr>session := (session a)\<lparr>pipeline_status := Some v\<rparr>\<rparr>"

definition show_ui :: "ui list \<Rightarrow> app \<Rightarrow> app" where
  "show_ui us a = a\<lparr>shown := shown a @ us\<rparr>"

definition credentials_hint :: string where
  "credentials_hint =
     bulb @ '' Make sure you have configured Kaggle credentials in `.streamlit/secrets.toml`''"

text \<open>
  What follows a \<^verbatim>\<open>try\<close> block of the two download buttons: on success the flags are
  set and \<^verbatim>\<open>st.rerun()\<close> ends the script run by its control exception; an
  \<^verbatim>\<open>Exception\<close> is handled; anything else propagates.
\<close>

definition after_download ::
  "string \<Rightarrow> app \<Rightarrow> world \<times> (py_exception + string) \<Rightarrow> app \<times> py_exception option"
where
  "after_download success_text a r =
     (case r of
        (w, Inr db_path) \<Rightarrow>
          (show_ui [St_success success_text]
             (set_status ''data_loaded''
                (a\<lparr>app_world := w, session := (session a)\<lparr>data_loaded := Some True\<rparr>\<rparr>)),
           Some (Raise RerunException []))
      | (w, Inl e) \<Rightarrow>
          (if is_Exception e then
             (show_ui [St_error (cross_mark @ '' Error: '' @ str e), St_info credentials_hint]
                (set_status ''not_started'' (a\<lparr>app_world := w\<rparr>)),
              None)
           else (a\<lparr>app_world := w\<rparr>, Some e)))"

text \<open>The \<^verbatim>\<open>try\<close> block of the refresh button: delete the store, then download and load.\<close>

definition refresh_try ::
  "externals \<Rightarrow> string \<Rightarrow> secrets_src \<Rightarrow> world \<Rightarrow> world \<times> (py_exception + string)"
where
  "refresh_try ext project_root sec w =
     (case (if db_file w \<noteq> None then
              (case unlink_raises ext of
                 Some e \<Rightarrow> (w, Some e)
               | None \<Rightarrow> (w\<lparr>db_file := None\<rparr>, None))
            else (w, None)) of
        (w1, Some e) \<Rightarrow> (w1, Inl e)
      | (w1, None) \<Rightarrow>
         (case get_kaggle_credentials sec of
            Inl e \<Rightarrow> (w1, Inl e)
          | Inr (api_token, username, key) \<Rightarrow>
              download_and_load_data ext api_token username key project_root w1))"

definition refresh_handler ::
  "externals \<Rightarrow> string \<Rightarrow> secrets_src \<Rightarrow> app \<Rightarrow> app \<times> py_exception option"
where
  "refresh_handler ext project_root sec a =
     (let a1 = set_status ''loading'' a in
      after_download (check_mark @ '' Data refreshed successfully!'') a1
        (refresh_try ext project_root sec (app_world a1)))"

text \<open>The \<^verbatim>\<open>try\<close> block of the first download button.\<close>

definition download_try ::
  "externals \<Rightarrow> string \<Rightarrow> secrets_src \<Rightarrow> world \<Rightarrow> world \<times> (py_exception + string)"
where
  "download_try ext project_root sec w =
     (case get_kaggle_credentials sec of
        Inl e \<Rightarrow> (w, Inl e)
      | Inr (api_token, username, key) \<Rightarrow>
          download_and_load_data ext api_token username key project_root w)"

definition download_handler ::
  "externals \<Rightarrow> string \<Rightarrow> secrets_src \<Rightarrow> app \<Rightarrow> app \<times> py_exception option"
where
  "download_handler ext project_root sec a =
     (let a1 = set_status ''loading'' a in
      after_download (check_mark @ '' Data downloaded and loaded successfully!'') a1
        (download_try ext project_root sec (app_world a1)))"

text \<open>
  The two dbt buttons. What a dbt run writes to the database is not part of the
  handler; the handler only counts the process it starts.
\<close>

definition count_dbt_call :: "app \<Rightarrow> app" where
  "count_dbt_call a = a\<lparr>app_world := (app_world a)\<lparr>dbt_calls := dbt_calls (app_world a) + 1\<rparr>\<rparr>"

definition build_handler :: "externals \<Rightarrow> string \<Rightarrow> app \<Rightarrow> app \<times> py_exception option" where
  "build_handler ext project_root a =
     (let a1 = count_dbt_call a in
      case run_dbt_command (dbt ext) project_root ''build'' [] of
        Inl e \<Rightarrow> (a1, Some e)
      | Inr (success, output) \<Rightarrow>
         (let a2 = show_ui [St_code output] a1 in
          if success then
            (set_status ''dbt_built''
               ((show_ui [St_success (check_mark @ '' dbt build completed successfully!'')] a2)
                  \<lparr>session := (session a2)\<lparr>dbt_built := Some True\<rparr>\<rparr>),
             None)
          else
            (show_ui [St_error (cross_mark @ '' dbt build failed. Check output above.'')] a2,
             None)))"

definition test_handler :: "externals \<Rightarrow> string \<Rightarrow> app \<Rightarrow> app \<times> py_exception option" where
  "test_handler ext project_root a =
     (let a1 = count_dbt_call a in
      case run_dbt_command (dbt ext) project_root ''test'' [] of
        Inl e \<Rightarrow> (a1, Some e)
      | Inr (success, output) \<Rightarrow>
         (let a2 = show_ui [St_code output] a1 in
          if success then (show_ui [St_success (check_mark @ '' All tests passed!'')] a2, None)
          else
            (show_ui [St_error (cross_mark @ '' Some tests failed. Check output above.'')] a2,
             None)))"

text \<open>
  The page: one button at most is pressed in a script run, and a button acts only where
  the page draws it. The refresh button is drawn when the database file exists, the first
  download button when it does not, the dbt buttons when the file exists after step 1.
\<close>

datatype click = NoClick | ClickRefresh | ClickDownload | ClickBuild | ClickTest

definition data_pipeline_page ::
  "externals \<Rightarrow> string \<Rightarrow> secrets_src \<Rightarrow> click \<Rightarrow> app \<Rightarrow> app \<times> py_exception option"
where
  "data_pipeline_page ext project_root sec c a =
     (case (if db_file (app_world a) \<noteq> None then
              (if c = ClickRefresh then refresh_handler ext project_root sec a else (a, None))
            else
              (if c = ClickDownload then download_handler ext project_root sec a
               else (a, None))) of
        (a1, Some e) \<Rightarrow> (a1, Some e)
      | (a1, None) \<Rightarrow>
         (if db_file (app_world a1) = None then (a1, None)
          else if c = ClickBuild then build_handler ext project_root a1
          else if c = ClickTest then test_handler ext project_root a1
          else (a1, None)))"

section \<open>The state prober\<close>

text \<open>
  C1, as amended. When the probe's accesses do not raise, the probe reports ready exactly
  when the database file exists and the marts schema holds a table, and its message tells
  the four cases of the classification table apart. The status that the process derives
  at start is the table's value in every case but one: a file with raw tables and no
  marts tables starts as \<open>not_started\<close>; \<open>data_loaded\<close> is never derived by probing.
\<close>

theorem startup_status_from_probe:
  assumes "connect_raises s = None" and "raw_count s = Inr r" and "marts_count s = Inr m"
    and "close_raises s = None"
  shows "check_database_status s =
           Inr (db_exists s \<and> 0 < m,
                if \<not> db_exists s then ''Database not found''
                else if 0 < m then check_mark @ '' Ready - Database & models built''
                else if 0 < r then warning_sign @ '' Data loaded - Run dbt build''
                else warning_sign @ '' Database exists but empty'')
         \<and> init_session_state s fresh_session =
           Inr \<lparr>data_loaded = Some False, dbt_built = Some False,
                pipeline_status =
                  Some (if db_exists s \<and> 0 < r \<and> \<not> 0 < m then ''not_started''
                        else spec_classify (db_exists s) (0 < r) (0 < m))\<rparr>"
  using assms
  by (simp add: check_database_status_def probe_body_def init_session_state_def
      fresh_session_def spec_classify_def)

theorem startup_status_from_probe_witness:
  "check_database_status
     \<lparr>db_exists = True, connect_raises = None, raw_count = Inr 9, marts_count = Inr 4,
      close_raises = None\<rparr>
     = Inr (True, check_mark @ '' Ready - Database & models built'')
   \<and> init_session_state
     \<lparr>db_exists = True, connect_raises = None, raw_count = Inr 9, marts_count = Inr 4,
      close_raises = None\<rparr> fresh_session
     = Inr \<lparr>data_loaded = Some False, dbt_built = Some False,
            pipeline_status = Some ''dbt_built''\<rparr>"
  using startup_status_from_probe [of "\<lparr>db_exists = True, connect_raises = None,
      raw_count = Inr 9, marts_count = Inr 4, close_raises = None\<rparr>" 9 4]
  by (simp add: spec_classify_def)

text \<open>
  C1 as stated fails: a store with one raw table and no marts table starts as
  \<open>not_started\<close>, where the classification table says \<open>data_loaded\<close>.
\<close>

theorem startup_status_counterexample:
  "init_session_state
     \<lparr>db_exists = True, connect_raises = None, raw_count = Inr 1, marts_count = Inr 0,
      close_raises = None\<rparr> fresh_session
     = Inr \<lparr>data_loaded = Some False, dbt_built = Some False,
            pipeline_status = Some ''not_started''\<rparr>
   \<and> spec_classify True True False = ''data_loaded''
   \<and> ''not_started'' \<noteq> spec_classify True True False"
  by (simp add: check_database_status_def probe_body_def init_session_state_def
      fresh_session_def spec_classify_def)

text \<open>The \<^verbatim>\<open>try\<close> block raises what its first failing access raises.\<close>

lemma probe_body_connect: "connect_raises s = Some e \<Longrightarrow> probe_body s = Inl e"
  by (simp add: probe_body_def)

lemma probe_body_raw:
  "connect_raises s = None \<Longrightarrow> raw_count s = Inl e \<Longrightarrow> probe_body s = Inl e"
  by (simp add: probe_body_def)

lemma probe_body_marts:
  "connect_raises s = None \<Longrightarrow> raw_count s = Inr r \<Longrightarrow> marts_count s = Inl e
     \<Longrightarrow> probe_body s = Inl e"
  by (simp add: probe_body_def)

lemma probe_body_close:
  "connect_raises s = None \<Longrightarrow> raw_count s = Inr r \<Longrightarrow> marts_count s = Inr m
     \<Longrightarrow> close_raises s = Some e \<Longrightarrow> probe_body s = Inl e"
  by (simp add: probe_body_def)

text \<open>
  C3. When the database file exists and opening the store, one of the two catalog
  queries or closing the connection raises an exception \<open>e\<close> of a class under
  \<^verbatim>\<open>Exception\<close> (as the driver's storage errors are), the probe does not raise: it
  returns not ready, with the text \<open>Database error: \<close> followed by \<open>str e\<close>.
\<close>

theorem probe_catches_storage_exceptions:
  assumes "db_exists s"
    and "connect_raises s = Some e
         \<or> connect_raises s = None \<and> raw_count s = Inl e
         \<or> connect_raises s = None \<and> raw_count s = Inr r \<and> marts_count s = Inl e
         \<or> connect_raises s = None \<and> raw_count s = Inr r \<and> marts_count s = Inr m
             \<and> close_raises s = Some e"
    and "is_Exception e"
  shows "check_database_status s = Inr (False, ''Database error: '' @ str e)"
proof -
  from assms(2) have "probe_body s = Inl e"
    by (auto simp: probe_body_connect probe_body_raw probe_body_marts probe_body_close)
  with assms(1,3) show ?thesis
    by (simp add: check_database_status_def)
qed

theorem probe_catches_storage_exceptions_witness:
  "check_database_status
     \<lparr>db_exists = True, connect_raises = None, raw_count = Inr 2,
      marts_count = Inl (Raise OtherException ''IO Error: file is locked''),
      close_raises = None\<rparr>
   = Inr (False, ''Database error: IO Error: file is locked'')"
  using probe_catches_storage_exceptions [of "\<lparr>db_exists = True, connect_raises = None,
      raw_count = Inr 2, marts_count = Inl (Raise OtherException ''IO Error: file is locked''),
      close_raises = None\<rparr>" "Raise OtherException ''IO Error: file is locked''" 2 0]
  by simp

section \<open>The transform invocation\<close>

text \<open>
  C5, as amended. Let \<open>p\<close> be the process that the dbt command line starts. The call
  reports success exactly when \<open>p\<close> starts, exits within 300 seconds, its output is
  decoded without an exception and its exit code is zero. When \<open>p\<close> exits within 300
  seconds and its output is decoded, the text returned is its standard output followed by
  its standard error; when decoding raises an exception \<open>e\<close> under \<^verbatim>\<open>Exception\<close>, the
  call reports a failure with the text \<open>Error running dbt: \<close> followed by \<open>str e\<close>,
  whatever the exit code. When \<open>p\<close> starts and has not exited after 300 seconds, the call
  reports a failure with the fixed text \<open>Command timed out after 5 minutes\<close>. That report
  differs from the report of a process that exits in time with a non-zero code whenever
  the output of that process is not the fixed text itself: the result has no other mark of
  a timeout.
\<close>

theorem transform_outcome:
  assumes p: "p = sh (dbt_cmd project_root command args)"
  shows "((\<exists>out. run_dbt_command sh project_root command args = Inr (True, out))
            \<longleftrightarrow> launch_raises p = None \<and> (\<exists>d. runtime p = Some d \<and> d \<le> 300)
                \<and> output_raises p = None \<and> returncode p = 0)
       \<and> (launch_raises p = None \<and> (\<exists>d. runtime p = Some d \<and> d \<le> 300)
            \<and> output_raises p = None \<longrightarrow>
            run_dbt_command sh project_root command args
              = Inr (returncode p = 0, stdout p @ stderr p))
       \<and> (\<forall>e. launch_raises p = None \<and> (\<exists>d. runtime p = Some d \<and> d \<le> 300)
            \<and> output_raises p = Some e \<and> is_Exception e \<and> exc_class_of e \<noteq> TimeoutExpired
          \<longrightarrow> run_dbt_command sh project_root command args
                = Inr (False, ''Error running dbt: '' @ str e))
       \<and> (launch_raises p = None \<and> \<not> (\<exists>d. runtime p = Some d \<and> d \<le> 300) \<longrightarrow>
            run_dbt_command sh project_root command args
              = Inr (False, ''Command timed out after 5 minutes'')
            \<and> (\<forall>sh' q d. q = sh' (dbt_cmd project_root command args)
                  \<and> launch_raises q = None \<and> runtime q = Some d \<and> d \<le> 300
                  \<and> output_raises q = None \<and> returncode q \<noteq> 0
                  \<and> stdout q @ stderr q \<noteq> ''Command timed out after 5 minutes''
                \<longrightarrow> run_dbt_command sh' project_root command args
                      \<noteq> run_dbt_command sh project_root command args))"
proof -
  let ?run = "run_dbt_command sh project_root command args"
  have intime: "?run = Inr (returncode p = 0, stdout p @ stderr p)"
    if "launch_raises p = None" and "runtime p = Some d" and "d \<le> 300"
      and "output_raises p = None" for d
    using that p by (simp add: run_dbt_command_def subprocess_run_def Let_def)
  have garbled: "?run = Inr (False, ''Error running dbt: '' @ str e)"
    if "launch_raises p = None" and "runtime p = Some d" and "d \<le> 300"
      and "output_raises p = Some e" and "is_Exception e"
      and "exc_class_of e \<noteq> TimeoutExpired" for d e
    using that p by (simp add: run_dbt_command_def subprocess_run_def Let_def)
  have unread: "?run \<noteq> Inr (True, out)" if "output_raises p \<noteq> None" for out
    using that p
    by (auto simp: run_dbt_command_def subprocess_run_def Let_def
        split: option.splits if_splits)
  have late: "?run = Inr (False, ''Command timed out after 5 minutes'')"
    if "launch_raises p = None" and "\<not> (\<exists>d. runtime p = Some d \<and> d \<le> 300)"
    using that p
    by (cases "runtime p") (auto simp: run_dbt_command_def subprocess_run_def Let_def)
  have nostart: "?run \<noteq> Inr (True, out)" if "launch_raises p \<noteq> None" for out
    using that p
    by (auto simp: run_dbt_command_def subprocess_run_def Let_def split: if_splits)
  have other: "run_dbt_command sh' project_root command args
                 = Inr (False, stdout q @ stderr q)"
    if "q = sh' (dbt_cmd project_root command args)" and "launch_raises q = None"
      and "runtime q = Some d" and "d \<le> 300" and "output_raises q = None"
      and "returncode q \<noteq> 0" for sh' q d
    using that by (simp add: run_dbt_command_def subprocess_run_def Let_def)
  have success: "(\<exists>out. ?run = Inr (True, out))
            \<longleftrightarrow> launch_raises p = None \<and> (\<exists>d. runtime p = Some d \<and> d \<le> 300)
                \<and> output_raises p = None \<and> returncode p = 0"
  proof (cases "launch_raises p = None")
    case False
    with nostart show ?thesis by auto
  next
    case started: True
    show ?thesis
    proof (cases "\<exists>d. runtime p = Some d \<and> d \<le> 300")
      case False
      with late [OF started] show ?thesis by simp
    next
      case True
      then obtain d where d: "runtime p = Some d" "d \<le> 300" by blast
      show ?thesis
      proof (cases "output_raises p = None")
        case False
        with unread show ?thesis by auto
      next
        case True
        with intime [OF started d] started d show ?thesis by auto
      qed
    qed
  qed
  have timeout: "?run = Inr (False, ''Command timed out after 5 minutes'')
            \<and> (\<forall>sh' q d. q = sh' (dbt_cmd project_root command args)
                  \<and> launch_raises q = None \<and> runtime q = Some d \<and> d \<le> 300
                  \<and> output_raises q = None \<and> returncode q \<noteq> 0
                  \<and> stdout q @ stderr q \<noteq> ''Command timed out after 5 minutes''
                \<longrightarrow> run_dbt_command sh' project_root command args \<noteq> ?run)"
    if "launch_raises p = None" and "\<not> (\<exists>d. runtime p = Some d \<and> d \<le> 300)"
    using late [OF that] other by auto
  have decoded: "launch_raises p = None \<and> (\<exists>d. runtime p = Some d \<and> d \<le> 300)
            \<and> output_raises p = None \<longrightarrow>
            ?run = Inr (returncode p = 0, stdout p @ stderr p)"
    using intime by auto
  have undecoded: "\<forall>e. launch_raises p = None \<and> (\<exists>d. runtime p = Some d \<and> d \<le> 300)
            \<and> output_raises p = Some e \<and> is_Exception e \<and> exc_class_of e \<noteq> TimeoutExpired
          \<longrightarrow> ?run = Inr (False, ''Error running dbt: '' @ str e)"
    using garbled by auto
  have expired: "launch_raises p = None \<and> \<not> (\<exists>d. runtime p = Some d \<and> d \<le> 300) \<longrightarrow>
            ?run = Inr (False, ''Command timed out after 5 minutes'')
            \<and> (\<forall>sh' q d. q = sh' (dbt_cmd project_root command args)
                  \<and> launch_raises q = None \<and> runtime q = Some d \<and> d \<le> 300
                  \<and> output_raises q = None \<and> returncode q \<noteq> 0
                  \<and> stdout q @ stderr q \<noteq> ''Command timed out after 5 minutes''
                \<longrightarrow> run_dbt_command sh' project_root command args \<noteq> ?run)"
    using timeout by (intro impI) (elim conjE)
  show ?thesis
    by (rule conjI [OF success conjI [OF decoded conjI [OF undecoded expired]]])
qed

theorem transform_outcome_witness:
  "run_dbt_command
     (\<lambda>cmd. \<lparr>launch_raises = None, runtime = Some 42, returncode = 0,
              stdout = ''Done. PASS=12'', stderr = '' WARN=0'', output_raises = None\<rparr>)
     ''/app'' ''build'' []
     = Inr (True, ''Done. PASS=12 WARN=0'')
   \<and> run_dbt_command
     (\<lambda>cmd. \<lparr>launch_raises = None, runtime = Some 301, returncode = 0,
              stdout = ''Done. PASS=12'', stderr = '' WARN=0'', output_raises = None\<rparr>)
     ''/app'' ''build'' []
     = Inr (False, ''Command timed out after 5 minutes'')
   \<and> run_dbt_command
     (\<lambda>cmd. \<lparr>launch_raises = None, runtime = Some 42, returncode = 2,
              stdout = ''Done. ERROR=1'', stderr = [], output_raises = None\<rparr>)
     ''/app'' ''build'' []
     \<noteq> run_dbt_command
     (\<lambda>cmd. \<lparr>launch_raises = None, runtime = Some 301, returncode = 0,
              stdout = ''Done. PASS=12'', stderr = '' WARN=0'', output_raises = None\<rparr>)
     ''/app'' ''build'' []
   \<and> run_dbt_command
     (\<lambda>cmd. \<lparr>launch_raises = None, runtime = Some 1, returncode = 0,
              stdout = [], stderr = [],
              output_raises = Some (Raise UnicodeDecodeError ''invalid start byte'')\<rparr>)
     ''/app'' ''build'' []
     = Inr (False, ''Error running dbt: invalid start byte'')"
proof -
  let ?quick = "\<lparr>launch_raises = None, runtime = Some 42, returncode = 0,
              stdout = ''Done. PASS=12'', stderr = '' WARN=0'', output_raises = None\<rparr>"
  let ?slow = "\<lparr>launch_raises = None, runtime = Some 301, returncode = 0,
              stdout = ''Done. PASS=12'', stderr = '' WARN=0'', output_raises = None\<rparr>"
  let ?bad = "\<lparr>launch_raises = None, runtime = Some 42, returncode = 2,
              stdout = ''Done. ERROR=1'', stderr = [], output_raises = None\<rparr>"
  let ?e = "Raise UnicodeDecodeError ''invalid start byte''"
  let ?bytes = "\<lparr>launch_raises = None, runtime = Some 1, returncode = 0,
              stdout = [], stderr = [], output_raises = Some ?e\<rparr>"
  from transform_outcome [of ?quick "\<lambda>cmd. ?quick" "''/app''" "''build''" "[]"]
  have a: "run_dbt_command (\<lambda>cmd. ?quick) ''/app'' ''build'' []
             = Inr (True, ''Done. PASS=12 WARN=0'')"
    by simp
  have late: "launch_raises ?slow = None \<and> \<not> (\<exists>d. runtime ?slow = Some d \<and> d \<le> 300)"
    by simp
  note slow = transform_outcome [of ?slow "\<lambda>cmd. ?slow" "''/app''" "''build''" "[]",
      OF refl, THEN conjunct2, THEN conjunct2, THEN conjunct2, rule_format, OF late]
  from slow [THEN conjunct1]
  have b: "run_dbt_command (\<lambda>cmd. ?slow) ''/app'' ''build'' []
             = Inr (False, ''Command timed out after 5 minutes'')" .
  have failed: "?bad = (\<lambda>cmd. ?bad) (dbt_cmd ''/app'' ''build'' [])
                  \<and> launch_raises ?bad = None \<and> runtime ?bad = Some 42 \<and> (42::nat) \<le> 300
                  \<and> output_raises ?bad = None \<and> returncode ?bad \<noteq> 0
                  \<and> stdout ?bad @ stderr ?bad \<noteq> ''Command timed out after 5 minutes''"
    by simp
  from slow [THEN conjunct2, rule_format, of ?bad "\<lambda>cmd. ?bad" 42, OF failed]
  have c: "run_dbt_command (\<lambda>cmd. ?bad) ''/app'' ''build'' []
             \<noteq> run_dbt_command (\<lambda>cmd. ?slow) ''/app'' ''build'' []" .
  have undecodable: "launch_raises ?bytes = None \<and> (\<exists>d. runtime ?bytes = Some d \<and> d \<le> 300)
      \<and> output_raises ?bytes = Some ?e \<and> is_Exception ?e \<and> exc_class_of ?e \<noteq> TimeoutExpired"
    by simp
  from transform_outcome [of ?bytes "\<lambda>cmd. ?bytes" "''/app''" "''build''" "[]",
      OF refl, THEN conjunct2, THEN conjunct2, THEN conjunct1, rule_format, OF undecodable]
  have d: "run_dbt_command (\<lambda>cmd. ?bytes) ''/app'' ''build'' []
             = Inr (False, ''Error running dbt: invalid start byte'')"
    by simp
  from a b c d show ?thesis by simp
qed

text \<open>
  C5 as stated fails twice: a process that exits with code 1 after printing the fixed text
  is reported exactly as a timeout is, and a process that exits with code 0 in time is
  reported as failed when its output cannot be decoded.
\<close>

theorem transform_timeout_counterexample:
  "run_dbt_command
     (\<lambda>cmd. \<lparr>launch_raises = None, runtime = None, returncode = 0,
              stdout = [], stderr = [], output_raises = None\<rparr>) ''/app'' ''build'' []
   = run_dbt_command
     (\<lambda>cmd. \<lparr>launch_raises = None, runtime = Some 2, returncode = 1,
              stdout = ''Command timed out after 5 minutes'', stderr = [],
              output_raises = None\<rparr>) ''/app'' ''build'' []
   \<and> run_dbt_command
     (\<lambda>cmd. \<lparr>launch_raises = None, runtime = Some 1, returncode = 0,
              stdout = [], stderr = [],
              output_raises = Some (Raise UnicodeDecodeError ''invalid start byte'')\<rparr>)
     ''/app'' ''build'' []
     = Inr (False, ''Error running dbt: invalid start byte'')"
  by (simp add: run_dbt_command_def subprocess_run_def Let_def)

section \<open>Credentials\<close>

lemma credentials_try_shape:
  "credentials_try sec = Inr (Some c) \<Longrightarrow>
     (\<exists>t. c = (Some t, None, None)) \<or> (\<exists>u k. c = (None, Some u, Some k))"
  by (auto simp: credentials_try_def split: sum.splits bool.splits)

lemma get_kaggle_credentials_returns: "\<exists>c. get_kaggle_credentials sec = Inr c"
  by (simp add: get_kaggle_credentials_def split: sum.splits option.splits)

text \<open>
  C10. For every state of the secrets, \<open>get_kaggle_credentials\<close> returns: its result is
  \<open>(None, None, None)\<close>, a token alone, or a username together with a key; and when
  reading the secrets raises, the result is \<open>(None, None, None)\<close>.
\<close>

theorem get_kaggle_credentials_total:
  "(\<exists>c. get_kaggle_credentials sec = Inr c
        \<and> (c = (None, None, None) \<or> (\<exists>t. c = (Some t, None, None))
            \<or> (\<exists>u k. c = (None, Some u, Some k))))
   \<and> ((\<exists>e. credentials_try sec = Inl e) \<longrightarrow>
        get_kaggle_credentials sec = Inr (None, None, None))"
proof (cases "credentials_try sec")
  case (Inl e)
  then show ?thesis by (simp add: get_kaggle_credentials_def)
next
  case (Inr r)
  show ?thesis
  proof (cases r)
    case None
    with Inr show ?thesis by (simp add: get_kaggle_credentials_def)
  next
    case (Some c)
    with Inr credentials_try_shape [of sec c] show ?thesis
      by (auto simp: get_kaggle_credentials_def)
  qed
qed

theorem get_kaggle_credentials_total_witness:
  "credentials_try (Secrets (Some (KString ''api_token = abc'')))
     = Inl (Raise TypeError ''string indices must be integers'')
   \<and> get_kaggle_credentials (Secrets (Some (KString ''api_token = abc'')))
     = Inr (None, None, None)"
proof -
  have t: "credentials_try (Secrets (Some (KString ''api_token = abc'')))
     = Inl (Raise TypeError ''string indices must be integers'')"
    by (simp add: credentials_try_def secrets_kaggle_has_def secrets_kaggle_item_def)
  with get_kaggle_credentials_total [of "Secrets (Some (KString ''api_token = abc''))"]
  show ?thesis by simp
qed

lemma truthy_None: "truthy None = False"
  by (simp add: truthy_def)

lemma credentials_help_length: "length credentials_help = 384"
  by (simp add: credentials_help_def newline_def apostrophe_def)

text \<open>
  C2, as amended. When the explicit token is given and is not the empty string, the
  resolver settles on it whatever the environment holds. When the environment accepts the
  value, the token is stored in \<^verbatim>\<open>KAGGLE_API_TOKEN\<close>, the line about the provided token
  is printed, nothing else changes (the legacy variables keep their values) and nothing
  is raised. When the environment refuses the value, as it does a token that holds a NUL
  byte, the exception of the assignment is raised, and nothing is written or printed. In
  neither case is a later source looked at.
\<close>

theorem explicit_token_shadows:
  assumes "api_token = Some t" and "t \<noteq> []"
  shows "setup_kaggle_credentials api_token username key w =
           (case putenv_error w ''KAGGLE_API_TOKEN'' t of
              None \<Rightarrow>
                (w\<lparr>environ := (environ w)(''KAGGLE_API_TOKEN'' \<mapsto> t),
                   printed := printed w
                     @ [Print ''Using provided Kaggle API token (new format)'']\<rparr>,
                 None)
            | Some e \<Rightarrow> (w, Some e))
       \<and> (CHR 0x00 \<in> set t \<longrightarrow>
            setup_kaggle_credentials api_token username key w
              = (w, Some (Raise ValueError ''embedded null byte'')))"
  using assms
  by (simp add: setup_kaggle_credentials_def truthy_def print_def setenv_def
      putenv_error_def split: option.splits)

theorem explicit_token_shadows_witness:
  "setup_kaggle_credentials (Some ''tok'') None None
     \<lparr>environ = [''KAGGLE_USERNAME'' \<mapsto> ''u'', ''KAGGLE_KEY'' \<mapsto> ''k''], home_dir = ''/home/user'',
      kaggle_json_exists = False, db_file = None, raw_data_dir = [], printed = [],
      api_calls = 0, dbt_calls = 0, putenv_raises = (\<lambda>k v. None)\<rparr>
   = (\<lparr>environ = [''KAGGLE_USERNAME'' \<mapsto> ''u'', ''KAGGLE_KEY'' \<mapsto> ''k'',
                  ''KAGGLE_API_TOKEN'' \<mapsto> ''tok''], home_dir = ''/home/user'',
      kaggle_json_exists = False, db_file = None, raw_data_dir = [],
      printed = [Print ''Using provided Kaggle API token (new format)''],
      api_calls = 0, dbt_calls = 0, putenv_raises = (\<lambda>k v. None)\<rparr>, None)
   \<and> setup_kaggle_credentials (Some [CHR ''a'', CHR 0x00, CHR ''b'']) None None
     \<lparr>environ = [''KAGGLE_USERNAME'' \<mapsto> ''u'', ''KAGGLE_KEY'' \<mapsto> ''k''], home_dir = ''/home/user'',
      kaggle_json_exists = False, db_file = None, raw_data_dir = [], printed = [],
      api_calls = 0, dbt_calls = 0, putenv_raises = (\<lambda>k v. None)\<rparr>
   = (\<lparr>environ = [''KAGGLE_USERNAME'' \<mapsto> ''u'', ''KAGGLE_KEY'' \<mapsto> ''k''], home_dir = ''/home/user'',
      kaggle_json_exists = False, db_file = None, raw_data_dir = [], printed = [],
      api_calls = 0, dbt_calls = 0, putenv_raises = (\<lambda>k v. None)\<rparr>,
      Some (Raise ValueError ''embedded null byte''))"
proof -
  let ?w = "\<lparr>environ = [''KAGGLE_USERNAME'' \<mapsto> ''u'', ''KAGGLE_KEY'' \<mapsto> ''k''],
      home_dir = ''/home/user'',
      kaggle_json_exists = False, db_file = None, raw_data_dir = [], printed = [],
      api_calls = 0, dbt_calls = 0, putenv_raises = (\<lambda>k v. None)\<rparr>"
  have ok: "putenv_error ?w ''KAGGLE_API_TOKEN'' ''tok'' = None"
    by (simp add: putenv_error_def)
  from explicit_token_shadows [of "Some ''tok''" "''tok''" None None ?w, THEN conjunct1] ok
  have a: "setup_kaggle_credentials (Some ''tok'') None None ?w
             = (?w\<lparr>environ := (environ ?w)(''KAGGLE_API_TOKEN'' \<mapsto> ''tok''),
                  printed := printed ?w
                    @ [Print ''Using provided Kaggle API token (new format)'']\<rparr>, None)"
    by simp
  from explicit_token_shadows [of "Some [CHR ''a'', CHR 0x00, CHR ''b'']"
      "[CHR ''a'', CHR 0x00, CHR ''b'']" None None ?w, THEN conjunct2]
  have b: "setup_kaggle_credentials (Some [CHR ''a'', CHR 0x00, CHR ''b'']) None None ?w
             = (?w, Some (Raise ValueError ''embedded null byte''))"
    by simp
  from a b show ?thesis by simp
qed

text \<open>
  C2 as stated fails: an explicit token that is the empty string is passed over, and with
  the legacy variables set in the environment the resolver settles on the legacy pair; and
  an explicit token that holds a NUL byte is not used, since storing it raises.
\<close>

theorem explicit_token_counterexample:
  "setup_kaggle_credentials (Some []) None None
     \<lparr>environ = [''KAGGLE_USERNAME'' \<mapsto> ''u'', ''KAGGLE_KEY'' \<mapsto> ''k''], home_dir = ''/home/user'',
      kaggle_json_exists = False, db_file = None, raw_data_dir = [], printed = [],
      api_calls = 0, dbt_calls = 0, putenv_raises = (\<lambda>k v. None)\<rparr>
   = (\<lparr>environ = [''KAGGLE_USERNAME'' \<mapsto> ''u'', ''KAGGLE_KEY'' \<mapsto> ''k''], home_dir = ''/home/user'',
      kaggle_json_exists = False, db_file = None, raw_data_dir = [],
      printed = [Print ''Using Kaggle credentials from environment variables (legacy format)''],
      api_calls = 0, dbt_calls = 0, putenv_raises = (\<lambda>k v. None)\<rparr>, None)
   \<and> setup_kaggle_credentials (Some [CHR ''a'', CHR 0x00, CHR ''b'']) None None
     \<lparr>environ = [''KAGGLE_USERNAME'' \<mapsto> ''u'', ''KAGGLE_KEY'' \<mapsto> ''k''], home_dir = ''/home/user'',
      kaggle_json_exists = False, db_file = None, raw_data_dir = [], printed = [],
      api_calls = 0, dbt_calls = 0, putenv_raises = (\<lambda>k v. None)\<rparr>
   = (\<lparr>environ = [''KAGGLE_USERNAME'' \<mapsto> ''u'', ''KAGGLE_KEY'' \<mapsto> ''k''], home_dir = ''/home/user'',
      kaggle_json_exists = False, db_file = None, raw_data_dir = [], printed = [],
      api_calls = 0, dbt_calls = 0, putenv_raises = (\<lambda>k v. None)\<rparr>,
      Some (Raise ValueError ''embedded null byte''))"
  by (simp add: setup_kaggle_credentials_def truthy_def print_def setenv_def putenv_error_def)

text \<open>
  C7. When the explicit username or the explicit key is missing (\<^verbatim>\<open>None\<close> or empty), the
  resolver behaves as if neither had been given: the result is that of the call without
  them, the legacy variables of the environment are not written, and when no later source
  matches either, the resolver ends in its not-found branch with nothing changed. In
  the application's secrets, a table without a token that lacks the username or the key
  gives \<open>(None, None, None)\<close>.
\<close>

theorem partial_legacy_is_absent:
  assumes "\<not> (truthy username \<and> truthy key)"
  shows "setup_kaggle_credentials api_token username key w
           = setup_kaggle_credentials api_token None None w
       \<and> environ (fst (setup_kaggle_credentials api_token username key w)) ''KAGGLE_USERNAME''
           = environ w ''KAGGLE_USERNAME''
       \<and> environ (fst (setup_kaggle_credentials api_token username key w)) ''KAGGLE_KEY''
           = environ w ''KAGGLE_KEY''
       \<and> (\<not> truthy api_token \<and> \<not> truthy (environ w ''KAGGLE_API_TOKEN'')
            \<and> \<not> (truthy (environ w ''KAGGLE_USERNAME'') \<and> truthy (environ w ''KAGGLE_KEY''))
            \<and> \<not> kaggle_json_exists w
          \<longrightarrow> setup_kaggle_credentials api_token username key w
                = (w, Some credentials_not_found))
       \<and> (\<forall>t. t ''api_token'' = None \<and> (t ''username'' = None \<or> t ''key'' = None)
          \<longrightarrow> get_kaggle_credentials (Secrets (Some (KTable t))) = Inr (None, None, None))"
proof -
  have "get_kaggle_credentials (Secrets (Some (KTable t))) = Inr (None, None, None)"
    if "t ''api_token'' = None" and "t ''username'' = None \<or> t ''key'' = None" for t
    using that
    by (auto simp: get_kaggle_credentials_def credentials_try_def secrets_kaggle_has_def
        secrets_kaggle_item_def split: option.splits bool.splits)
  then have secrets: "\<forall>t. t ''api_token'' = None \<and> (t ''username'' = None \<or> t ''key'' = None)
          \<longrightarrow> get_kaggle_credentials (Secrets (Some (KTable t))) = Inr (None, None, None)"
    by blast
  from assms have absent: "(truthy username \<and> truthy key) = False"
    by simp
  have same: "setup_kaggle_credentials api_token username key w
                = setup_kaggle_credentials api_token None None w"
    by (simp only: setup_kaggle_credentials_def absent truthy_None simp_thms if_False)
  have "environ (fst (setup_kaggle_credentials api_token None None w)) ''KAGGLE_USERNAME''
           = environ w ''KAGGLE_USERNAME''
      \<and> environ (fst (setup_kaggle_credentials api_token None None w)) ''KAGGLE_KEY''
           = environ w ''KAGGLE_KEY''"
    by (simp add: setup_kaggle_credentials_def truthy_None print_def setenv_def Let_def
        split: option.splits)
  with same have kept: "environ (fst (setup_kaggle_credentials api_token username key w))
             ''KAGGLE_USERNAME'' = environ w ''KAGGLE_USERNAME''
      \<and> environ (fst (setup_kaggle_credentials api_token username key w)) ''KAGGLE_KEY''
           = environ w ''KAGGLE_KEY''"
    by simp
  have none: "\<not> truthy api_token \<and> \<not> truthy (environ w ''KAGGLE_API_TOKEN'')
            \<and> \<not> (truthy (environ w ''KAGGLE_USERNAME'') \<and> truthy (environ w ''KAGGLE_KEY''))
            \<and> \<not> kaggle_json_exists w
          \<longrightarrow> setup_kaggle_credentials api_token username key w
                = (w, Some credentials_not_found)"
    by (simp add: setup_kaggle_credentials_def absent Let_def)
  from kept show ?thesis
    by (intro conjI same none secrets) simp_all
qed

theorem partial_legacy_is_absent_witness:
  "setup_kaggle_credentials None (Some ''alice'') None
     \<lparr>environ = Map.empty, home_dir = ''/home/user'',
      kaggle_json_exists = False, db_file = None, raw_data_dir = [], printed = [],
      api_calls = 0, dbt_calls = 0,
      putenv_raises = (\<lambda>k v. None)\<rparr>
   = (\<lparr>environ = Map.empty, home_dir = ''/home/user'',
      kaggle_json_exists = False, db_file = None, raw_data_dir = [], printed = [],
      api_calls = 0, dbt_calls = 0,
      putenv_raises = (\<lambda>k v. None)\<rparr>, Some credentials_not_found)
   \<and> get_kaggle_credentials (Secrets (Some (KTable [''username'' \<mapsto> ''alice'']))) =
       Inr (None, None, None)"
proof -
  have partial: "\<not> (truthy (Some ''alice'') \<and> truthy None)"
    by (simp add: truthy_def)
  note t = partial_legacy_is_absent [OF partial, of None
     "\<lparr>environ = Map.empty, home_dir = ''/home/user'',
      kaggle_json_exists = False, db_file = None, raw_data_dir = [], printed = [],
      api_calls = 0, dbt_calls = 0,
      putenv_raises = (\<lambda>k v. None)\<rparr>", THEN conjunct2, THEN conjunct2, THEN conjunct2]
  from t [THEN conjunct1]
  have a: "setup_kaggle_credentials None (Some ''alice'') None
     \<lparr>environ = Map.empty, home_dir = ''/home/user'',
      kaggle_json_exists = False, db_file = None, raw_data_dir = [], printed = [],
      api_calls = 0, dbt_calls = 0,
      putenv_raises = (\<lambda>k v. None)\<rparr>
   = (\<lparr>environ = Map.empty, home_dir = ''/home/user'',
      kaggle_json_exists = False, db_file = None, raw_data_dir = [], printed = [],
      api_calls = 0, dbt_calls = 0,
      putenv_raises = (\<lambda>k v. None)\<rparr>, Some credentials_not_found)"
    by (simp add: truthy_def)
  from t [THEN conjunct2, rule_format, of "[''username'' \<mapsto> ''alice'']"]
  have b: "get_kaggle_credentials (Secrets (Some (KTable [''username'' \<mapsto> ''alice''])))
             = Inr (None, None, None)"
    by simp
  from a b show ?thesis by simp
qed

text \<open>The resolver, branch by branch.\<close>

lemma putenv_error_environ:
  "putenv_error (w\<lparr>environ := m\<rparr>) k v = putenv_error w k v"
  by (simp add: putenv_error_def)

lemma setup_token:
  "truthy api_token \<Longrightarrow>
     setup_kaggle_credentials api_token username key w =
       (case putenv_error w ''KAGGLE_API_TOKEN'' (the api_token) of
          Some e \<Rightarrow> (w, Some e)
        | None \<Rightarrow>
            (w\<lparr>environ := (environ w)(''KAGGLE_API_TOKEN'' \<mapsto> the api_token),
               printed := printed w
                 @ [Print ''Using provided Kaggle API token (new format)'']\<rparr>, None))"
  by (simp add: setup_kaggle_credentials_def setenv_def print_def split: option.splits)

lemma setup_env_token:
  "\<not> truthy api_token \<Longrightarrow> truthy (environ w ''KAGGLE_API_TOKEN'') \<Longrightarrow>
     setup_kaggle_credentials api_token username key w =
       (w\<lparr>printed := printed w
            @ [Print ''Using Kaggle API token from environment variable (new format)'']\<rparr>,
        None)"
  by (simp add: setup_kaggle_credentials_def print_def)

lemma setup_legacy:
  "\<not> truthy api_token \<Longrightarrow> \<not> truthy (environ w ''KAGGLE_API_TOKEN'') \<Longrightarrow>
   truthy username \<Longrightarrow> truthy key \<Longrightarrow>
     setup_kaggle_credentials api_token username key w =
       (case putenv_error w ''KAGGLE_USERNAME'' (the username) of
          Some e \<Rightarrow> (w, Some e)
        | None \<Rightarrow>
           (case putenv_error w ''KAGGLE_KEY'' (the key) of
              Some e \<Rightarrow>
                (w\<lparr>environ := (environ w)(''KAGGLE_USERNAME'' \<mapsto> the username)\<rparr>, Some e)
            | None \<Rightarrow>
                (w\<lparr>environ := (environ w)(''KAGGLE_USERNAME'' \<mapsto> the username,
                                              ''KAGGLE_KEY'' \<mapsto> the key),
                   printed := printed w
                     @ [Print ''Using provided Kaggle credentials (legacy format)'']\<rparr>,
                 None)))"
  by (simp add: setup_kaggle_credentials_def setenv_def print_def putenv_error_environ
      split: option.splits)

lemma setup_env_legacy:
  "\<not> truthy api_token \<Longrightarrow> \<not> truthy (environ w ''KAGGLE_API_TOKEN'') \<Longrightarrow>
   \<not> (truthy username \<and> truthy key) \<Longrightarrow>
   truthy (environ w ''KAGGLE_USERNAME'') \<and> truthy (environ w ''KAGGLE_KEY'') \<Longrightarrow>
     setup_kaggle_credentials api_token username key w =
       (w\<lparr>printed := printed w
            @ [Print ''Using Kaggle credentials from environment variables (legacy format)'']\<rparr>,
        None)"
  by (auto simp: setup_kaggle_credentials_def print_def)

lemma setup_file:
  "\<not> truthy api_token \<Longrightarrow> \<not> truthy (environ w ''KAGGLE_API_TOKEN'') \<Longrightarrow>
   \<not> (truthy username \<and> truthy key) \<Longrightarrow>
   \<not> (truthy (environ w ''KAGGLE_USERNAME'') \<and> truthy (environ w ''KAGGLE_KEY'')) \<Longrightarrow>
   kaggle_json_exists w \<Longrightarrow>
     setup_kaggle_credentials api_token username key w =
       (w\<lparr>printed := printed w
            @ [Print (''Using Kaggle credentials from '' @ home_dir w
                      @ ''/.kaggle/kaggle.json'')]\<rparr>,
        None)"
  by (auto simp: setup_kaggle_credentials_def print_def Let_def)

lemma setup_none:
  "\<not> truthy api_token \<Longrightarrow> \<not> truthy (environ w ''KAGGLE_API_TOKEN'') \<Longrightarrow>
   \<not> (truthy username \<and> truthy key) \<Longrightarrow>
   \<not> (truthy (environ w ''KAGGLE_USERNAME'') \<and> truthy (environ w ''KAGGLE_KEY'')) \<Longrightarrow>
   \<not> kaggle_json_exists w \<Longrightarrow>
     setup_kaggle_credentials api_token username key w = (w, Some credentials_not_found)"
  by (auto simp: setup_kaggle_credentials_def Let_def)

lemma setup_kaggle_credentials_frame:
  "home_dir (fst (setup_kaggle_credentials api_token username key w)) = home_dir w
   \<and> kaggle_json_exists (fst (setup_kaggle_credentials api_token username key w))
       = kaggle_json_exists w
   \<and> db_file (fst (setup_kaggle_credentials api_token username key w)) = db_file w
   \<and> raw_data_dir (fst (setup_kaggle_credentials api_token username key w)) = raw_data_dir w
   \<and> api_calls (fst (setup_kaggle_credentials api_token username key w)) = api_calls w
   \<and> dbt_calls (fst (setup_kaggle_credentials api_token username key w)) = dbt_calls w
   \<and> putenv_raises (fst (setup_kaggle_credentials api_token username key w))
       = putenv_raises w"
proof -
  consider (a) "truthy api_token"
    | (b) "\<not> truthy api_token" "truthy (environ w ''KAGGLE_API_TOKEN'')"
    | (c) "\<not> truthy api_token" "\<not> truthy (environ w ''KAGGLE_API_TOKEN'')"
          "truthy username" "truthy key"
    | (d) "\<not> truthy api_token" "\<not> truthy (environ w ''KAGGLE_API_TOKEN'')"
          "\<not> (truthy username \<and> truthy key)"
          "truthy (environ w ''KAGGLE_USERNAME'') \<and> truthy (environ w ''KAGGLE_KEY'')"
    | (e) "\<not> truthy api_token" "\<not> truthy (environ w ''KAGGLE_API_TOKEN'')"
          "\<not> (truthy username \<and> truthy key)"
          "\<not> (truthy (environ w ''KAGGLE_USERNAME'') \<and> truthy (environ w ''KAGGLE_KEY''))"
          "kaggle_json_exists w"
    | (f) "\<not> truthy api_token" "\<not> truthy (environ w ''KAGGLE_API_TOKEN'')"
          "\<not> (truthy username \<and> truthy key)"
          "\<not> (truthy (environ w ''KAGGLE_USERNAME'') \<and> truthy (environ w ''KAGGLE_KEY''))"
          "\<not> kaggle_json_exists w"
    by blast
  then show ?thesis
  proof cases
    case a then show ?thesis by (simp add: setup_token split: option.splits)
  next
    case b then show ?thesis by (simp add: setup_env_token)
  next
    case c then show ?thesis by (simp add: setup_legacy split: option.splits)
  next
    case d then show ?thesis by (auto simp: setup_env_legacy)
  next
    case e then show ?thesis by (auto simp: setup_file)
  next
    case f then show ?thesis by (auto simp: setup_none)
  qed
qed

lemma setup_kaggle_credentials_environ:
  "environ (fst (setup_kaggle_credentials api_token username key w)) =
       (if truthy api_token then
          (if putenv_error w ''KAGGLE_API_TOKEN'' (the api_token) = None
           then (environ w)(''KAGGLE_API_TOKEN'' \<mapsto> the api_token) else environ w)
        else if truthy (environ w ''KAGGLE_API_TOKEN'') then environ w
        else if truthy username \<and> truthy key then
          (if putenv_error w ''KAGGLE_USERNAME'' (the username) \<noteq> None then environ w
           else if putenv_error w ''KAGGLE_KEY'' (the key) \<noteq> None
           then (environ w)(''KAGGLE_USERNAME'' \<mapsto> the username)
           else (environ w)(''KAGGLE_USERNAME'' \<mapsto> the username, ''KAGGLE_KEY'' \<mapsto> the key))
        else environ w)"
proof -
  consider (a) "truthy api_token"
    | (b) "\<not> truthy api_token" "truthy (environ w ''KAGGLE_API_TOKEN'')"
    | (c) "\<not> truthy api_token" "\<not> truthy (environ w ''KAGGLE_API_TOKEN'')"
          "truthy username" "truthy key"
    | (d) "\<not> truthy api_token" "\<not> truthy (environ w ''KAGGLE_API_TOKEN'')"
          "\<not> (truthy username \<and> truthy key)"
          "truthy (environ w ''KAGGLE_USERNAME'') \<and> truthy (environ w ''KAGGLE_KEY'')"
    | (e) "\<not> truthy api_token" "\<not> truthy (environ w ''KAGGLE_API_TOKEN'')"
          "\<not> (truthy username \<and> truthy key)"
          "\<not> (truthy (environ w ''KAGGLE_USERNAME'') \<and> truthy (environ w ''KAGGLE_KEY''))"
          "kaggle_json_exists w"
    | (f) "\<not> truthy api_token" "\<not> truthy (environ w ''KAGGLE_API_TOKEN'')"
          "\<not> (truthy username \<and> truthy key)"
          "\<not> (truthy (environ w ''KAGGLE_USERNAME'') \<and> truthy (environ w ''KAGGLE_KEY''))"
          "\<not> kaggle_json_exists w"
    by blast
  then show ?thesis
  proof cases
    case a then show ?thesis by (simp add: setup_token split: option.splits)
  next
    case b then show ?thesis by (simp add: setup_env_token)
  next
    case c then show ?thesis by (simp add: setup_legacy split: option.splits)
  next
    case d then show ?thesis by (auto simp: setup_env_legacy)
  next
    case e then show ?thesis by (auto simp: setup_file)
  next
    case f then show ?thesis by (auto simp: setup_none)
  qed
qed

lemma setup_kaggle_credentials_raised:
  "snd (setup_kaggle_credentials api_token username key w) =
       (if truthy api_token then putenv_error w ''KAGGLE_API_TOKEN'' (the api_token)
        else if truthy (environ w ''KAGGLE_API_TOKEN'') then None
        else if truthy username \<and> truthy key then
          (if putenv_error w ''KAGGLE_USERNAME'' (the username) \<noteq> None
           then putenv_error w ''KAGGLE_USERNAME'' (the username)
           else putenv_error w ''KAGGLE_KEY'' (the key))
        else if truthy (environ w ''KAGGLE_USERNAME'') \<and> truthy (environ w ''KAGGLE_KEY'')
        then None
        else if kaggle_json_exists w then None
        else Some credentials_not_found)"
proof -
  consider (a) "truthy api_token"
    | (b) "\<not> truthy api_token" "truthy (environ w ''KAGGLE_API_TOKEN'')"
    | (c) "\<not> truthy api_token" "\<not> truthy (environ w ''KAGGLE_API_TOKEN'')"
          "truthy username" "truthy key"
    | (d) "\<not> truthy api_token" "\<not> truthy (environ w ''KAGGLE_API_TOKEN'')"
          "\<not> (truthy username \<and> truthy key)"
          "truthy (environ w ''KAGGLE_USERNAME'') \<and> truthy (environ w ''KAGGLE_KEY'')"
    | (e) "\<not> truthy api_token" "\<not> truthy (environ w ''KAGGLE_API_TOKEN'')"
          "\<not> (truthy username \<and> truthy key)"
          "\<not> (truthy (environ w ''KAGGLE_USERNAME'') \<and> truthy (environ w ''KAGGLE_KEY''))"
          "kaggle_json_exists w"
    | (f) "\<not> truthy api_token" "\<not> truthy (environ w ''KAGGLE_API_TOKEN'')"
          "\<not> (truthy username \<and> truthy key)"
          "\<not> (truthy (environ w ''KAGGLE_USERNAME'') \<and> truthy (environ w ''KAGGLE_KEY''))"
          "\<not> kaggle_json_exists w"
    by blast
  then show ?thesis
  proof cases
    case a then show ?thesis by (simp add: setup_token split: option.splits)
  next
    case b then show ?thesis by (simp add: setup_env_token)
  next
    case c then show ?thesis by (simp add: setup_legacy split: option.splits)
  next
    case d then show ?thesis by (auto simp: setup_env_legacy)
  next
    case e then show ?thesis by (auto simp: setup_file)
  next
    case f then show ?thesis by (auto simp: setup_none)
  qed
qed

lemma setup_kaggle_credentials_printed:
  "printed (fst (setup_kaggle_credentials api_token username key w)) =
       printed w @
       (if snd (setup_kaggle_credentials api_token username key w) \<noteq> None then []
        else [Print
          (if truthy api_token then ''Using provided Kaggle API token (new format)''
           else if truthy (environ w ''KAGGLE_API_TOKEN'')
           then ''Using Kaggle API token from environment variable (new format)''
           else if truthy username \<and> truthy key
           then ''Using provided Kaggle credentials (legacy format)''
           else if truthy (environ w ''KAGGLE_USERNAME'') \<and> truthy (environ w ''KAGGLE_KEY'')
           then ''Using Kaggle credentials from environment variables (legacy format)''
           else ''Using Kaggle credentials from '' @ home_dir w @ ''/.kaggle/kaggle.json'')])"
proof -
  consider (a) "truthy api_token"
    | (b) "\<not> truthy api_token" "truthy (environ w ''KAGGLE_API_TOKEN'')"
    | (c) "\<not> truthy api_token" "\<not> truthy (environ w ''KAGGLE_API_TOKEN'')"
          "truthy username" "truthy key"
    | (d) "\<not> truthy api_token" "\<not> truthy (environ w ''KAGGLE_API_TOKEN'')"
          "\<not> (truthy username \<and> truthy key)"
          "truthy (environ w ''KAGGLE_USERNAME'') \<and> truthy (environ w ''KAGGLE_KEY'')"
    | (e) "\<not> truthy api_token" "\<not> truthy (environ w ''KAGGLE_API_TOKEN'')"
          "\<not> (truthy username \<and> truthy key)"
          "\<not> (truthy (environ w ''KAGGLE_USERNAME'') \<and> truthy (environ w ''KAGGLE_KEY''))"
          "kaggle_json_exists w"
    | (f) "\<not> truthy api_token" "\<not> truthy (environ w ''KAGGLE_API_TOKEN'')"
          "\<not> (truthy username \<and> truthy key)"
          "\<not> (truthy (environ w ''KAGGLE_USERNAME'') \<and> truthy (environ w ''KAGGLE_KEY''))"
          "\<not> kaggle_json_exists w"
    by blast
  then show ?thesis
  proof cases
    case a then show ?thesis by (simp add: setup_token split: option.splits)
  next
    case b then show ?thesis by (simp add: setup_env_token)
  next
    case c then show ?thesis by (simp add: setup_legacy split: option.splits)
  next
    case d then show ?thesis by (auto simp: setup_env_legacy)
  next
    case e then show ?thesis by (auto simp: setup_file)
  next
    case f then show ?thesis by (auto simp: setup_none)
  qed
qed

text \<open>
  C8, as amended. The resolver is a function of its parameters, the environment (its
  variables and the values it accepts) and the presence of the credentials file: two
  surroundings that agree on these give the same outcome and the same environment
  afterwards. It leaves the files, the database and the call counters as they are. It does
  write the environment, by design. An explicit token is stored in
  \<^verbatim>\<open>KAGGLE_API_TOKEN\<close>; an explicit username and key, when there is no token at all,
  are stored in \<^verbatim>\<open>KAGGLE_USERNAME\<close> and then in \<^verbatim>\<open>KAGGLE_KEY\<close>. A value that the
  environment refuses, as it does one that holds a NUL byte, is not stored: the
  assignment's exception is raised at once, so that a refused key leaves the username
  already stored. In every other case the environment is unchanged. When nothing is
  raised, the one line that names the chosen source is printed; when something is raised,
  nothing is printed.
\<close>

theorem resolver_frame:
  "home_dir (fst (setup_kaggle_credentials api_token username key w)) = home_dir w
   \<and> kaggle_json_exists (fst (setup_kaggle_credentials api_token username key w))
       = kaggle_json_exists w
   \<and> db_file (fst (setup_kaggle_credentials api_token username key w)) = db_file w
   \<and> raw_data_dir (fst (setup_kaggle_credentials api_token username key w)) = raw_data_dir w
   \<and> api_calls (fst (setup_kaggle_credentials api_token username key w)) = api_calls w
   \<and> dbt_calls (fst (setup_kaggle_credentials api_token username key w)) = dbt_calls w
   \<and> putenv_raises (fst (setup_kaggle_credentials api_token username key w))
       = putenv_raises w
   \<and> environ (fst (setup_kaggle_credentials api_token username key w)) =
       (if truthy api_token then
          (if putenv_error w ''KAGGLE_API_TOKEN'' (the api_token) = None
           then (environ w)(''KAGGLE_API_TOKEN'' \<mapsto> the api_token) else environ w)
        else if truthy (environ w ''KAGGLE_API_TOKEN'') then environ w
        else if truthy username \<and> truthy key then
          (if putenv_error w ''KAGGLE_USERNAME'' (the username) \<noteq> None then environ w
           else if putenv_error w ''KAGGLE_KEY'' (the key) \<noteq> None
           then (environ w)(''KAGGLE_USERNAME'' \<mapsto> the username)
           else (environ w)(''KAGGLE_USERNAME'' \<mapsto> the username, ''KAGGLE_KEY'' \<mapsto> the key))
        else environ w)
   \<and> snd (setup_kaggle_credentials api_token username key w) =
       (if truthy api_token then putenv_error w ''KAGGLE_API_TOKEN'' (the api_token)
        else if truthy (environ w ''KAGGLE_API_TOKEN'') then None
        else if truthy username \<and> truthy key then
          (if putenv_error w ''KAGGLE_USERNAME'' (the username) \<noteq> None
           then putenv_error w ''KAGGLE_USERNAME'' (the username)
           else putenv_error w ''KAGGLE_KEY'' (the key))
        else if truthy (environ w ''KAGGLE_USERNAME'') \<and> truthy (environ w ''KAGGLE_KEY'')
        then None
        else if kaggle_json_exists w then None
        else Some credentials_not_found)
   \<and> printed (fst (setup_kaggle_credentials api_token username key w)) =
       printed w @
       (if snd (setup_kaggle_credentials api_token username key w) \<noteq> None then []
        else [Print
          (if truthy api_token then ''Using provided Kaggle API token (new format)''
           else if truthy (environ w ''KAGGLE_API_TOKEN'')
           then ''Using Kaggle API token from environment variable (new format)''
           else if truthy username \<and> truthy key
           then ''Using provided Kaggle credentials (legacy format)''
           else if truthy (environ w ''KAGGLE_USERNAME'') \<and> truthy (environ w ''KAGGLE_KEY'')
           then ''Using Kaggle credentials from environment variables (legacy format)''
           else ''Using Kaggle credentials from '' @ home_dir w @ ''/.kaggle/kaggle.json'')])
   \<and> (\<forall>w'. environ w' = environ w \<and> kaggle_json_exists w' = kaggle_json_exists w
          \<and> putenv_raises w' = putenv_raises w
        \<longrightarrow> snd (setup_kaggle_credentials api_token username key w')
              = snd (setup_kaggle_credentials api_token username key w)
            \<and> environ (fst (setup_kaggle_credentials api_token username key w'))
              = environ (fst (setup_kaggle_credentials api_token username key w)))"
proof -
  let ?r = "setup_kaggle_credentials api_token username key w"
  have frame: "home_dir (fst ?r) = home_dir w \<and> kaggle_json_exists (fst ?r) = kaggle_json_exists w
      \<and> db_file (fst ?r) = db_file w \<and> raw_data_dir (fst ?r) = raw_data_dir w
      \<and> api_calls (fst ?r) = api_calls w \<and> dbt_calls (fst ?r) = dbt_calls w
      \<and> putenv_raises (fst ?r) = putenv_raises w"
    by (rule setup_kaggle_credentials_frame)
  from frame have r1: "home_dir (fst ?r) = home_dir w"
    and r2: "kaggle_json_exists (fst ?r) = kaggle_json_exists w"
    and r3: "db_file (fst ?r) = db_file w" and r4: "raw_data_dir (fst ?r) = raw_data_dir w"
    and r5: "api_calls (fst ?r) = api_calls w" and r6: "dbt_calls (fst ?r) = dbt_calls w"
    and r7: "putenv_raises (fst ?r) = putenv_raises w"
    by simp_all
  have env: "environ (fst ?r) =
       (if truthy api_token then
          (if putenv_error w ''KAGGLE_API_TOKEN'' (the api_token) = None
           then (environ w)(''KAGGLE_API_TOKEN'' \<mapsto> the api_token) else environ w)
        else if truthy (environ w ''KAGGLE_API_TOKEN'') then environ w
        else if truthy username \<and> truthy key then
          (if putenv_error w ''KAGGLE_USERNAME'' (the username) \<noteq> None then environ w
           else if putenv_error w ''KAGGLE_KEY'' (the key) \<noteq> None
           then (environ w)(''KAGGLE_USERNAME'' \<mapsto> the username)
           else (environ w)(''KAGGLE_USERNAME'' \<mapsto> the username, ''KAGGLE_KEY'' \<mapsto> the key))
        else environ w)"
    by (rule setup_kaggle_credentials_environ)
  have raised: "snd ?r =
       (if truthy api_token then putenv_error w ''KAGGLE_API_TOKEN'' (the api_token)
        else if truthy (environ w ''KAGGLE_API_TOKEN'') then None
        else if truthy username \<and> truthy key then
          (if putenv_error w ''KAGGLE_USERNAME'' (the username) \<noteq> None
           then putenv_error w ''KAGGLE_USERNAME'' (the username)
           else putenv_error w ''KAGGLE_KEY'' (the key))
        else if truthy (environ w ''KAGGLE_USERNAME'') \<and> truthy (environ w ''KAGGLE_KEY'')
        then None
        else if kaggle_json_exists w then None
        else Some credentials_not_found)"
    by (rule setup_kaggle_credentials_raised)
  have pr: "printed (fst ?r) =
       printed w @
       (if snd ?r \<noteq> None then []
        else [Print
          (if truthy api_token then ''Using provided Kaggle API token (new format)''
           else if truthy (environ w ''KAGGLE_API_TOKEN'')
           then ''Using Kaggle API token from environment variable (new format)''
           else if truthy username \<and> truthy key
           then ''Using provided Kaggle credentials (legacy format)''
           else if truthy (environ w ''KAGGLE_USERNAME'') \<and> truthy (environ w ''KAGGLE_KEY'')
           then ''Using Kaggle credentials from environment variables (legacy format)''
           else ''Using Kaggle credentials from '' @ home_dir w @ ''/.kaggle/kaggle.json'')])"
    by (rule setup_kaggle_credentials_printed)
  have same: "\<forall>w'. environ w' = environ w \<and> kaggle_json_exists w' = kaggle_json_exists w
          \<and> putenv_raises w' = putenv_raises w
        \<longrightarrow> snd (setup_kaggle_credentials api_token username key w') = snd ?r
            \<and> environ (fst (setup_kaggle_credentials api_token username key w'))
              = environ (fst ?r)"
  proof (intro allI impI)
    fix w' :: world
    assume eq: "environ w' = environ w \<and> kaggle_json_exists w' = kaggle_json_exists w
          \<and> putenv_raises w' = putenv_raises w"
    then have err: "putenv_error w' = putenv_error w"
      by (simp add: putenv_error_def fun_eq_iff)
    from eq show "snd (setup_kaggle_credentials api_token username key w') = snd ?r
            \<and> environ (fst (setup_kaggle_credentials api_token username key w'))
              = environ (fst ?r)"
      by (simp only: setup_kaggle_credentials_raised setup_kaggle_credentials_environ err)
  qed
  show ?thesis
    by (intro conjI r1 r2 r3 r4 r5 r6 r7 env raised pr same)
qed

theorem resolver_frame_witness:
  "snd (setup_kaggle_credentials None (Some ''u'') (Some ''k'')
     \<lparr>environ = Map.empty, home_dir = ''/root'',
      kaggle_json_exists = False, db_file = None, raw_data_dir = [],
      printed = [Print ''earlier''], api_calls = 3, dbt_calls = 1,
      putenv_raises = (\<lambda>k v. None)\<rparr>)
   = snd (setup_kaggle_credentials None (Some ''u'') (Some ''k'')
     \<lparr>environ = Map.empty, home_dir = ''/home/user'',
      kaggle_json_exists = False, db_file = None, raw_data_dir = [], printed = [],
      api_calls = 0, dbt_calls = 0, putenv_raises = (\<lambda>k v. None)\<rparr>)
   \<and> environ (fst (setup_kaggle_credentials None (Some ''u'') (Some ''k'')
     \<lparr>environ = Map.empty, home_dir = ''/home/user'',
      kaggle_json_exists = False, db_file = None, raw_data_dir = [], printed = [],
      api_calls = 0, dbt_calls = 0, putenv_raises = (\<lambda>k v. None)\<rparr>))
     = [''KAGGLE_USERNAME'' \<mapsto> ''u'', ''KAGGLE_KEY'' \<mapsto> ''k'']
   \<and> printed (fst (setup_kaggle_credentials None (Some ''u'') (Some ''k'')
     \<lparr>environ = Map.empty, home_dir = ''/home/user'',
      kaggle_json_exists = False, db_file = None, raw_data_dir = [], printed = [],
      api_calls = 0, dbt_calls = 0, putenv_raises = (\<lambda>k v. None)\<rparr>))
     = [Print ''Using provided Kaggle credentials (legacy format)'']"
proof -
  let ?w = "\<lparr>environ = Map.empty, home_dir = ''/home/user'',
      kaggle_json_exists = False, db_file = None, raw_data_dir = [], printed = [],
      api_calls = 0, dbt_calls = 0, putenv_raises = (\<lambda>k v. None)\<rparr>"
  let ?w' = "\<lparr>environ = Map.empty, home_dir = ''/root'',
      kaggle_json_exists = False, db_file = None, raw_data_dir = [],
      printed = [Print ''earlier''], api_calls = 3, dbt_calls = 1,
      putenv_raises = (\<lambda>k v. None)\<rparr>"
  note t = resolver_frame [of None "Some ''u''" "Some ''k''" ?w]
  have agree: "environ ?w' = environ ?w \<and> kaggle_json_exists ?w' = kaggle_json_exists ?w
          \<and> putenv_raises ?w' = putenv_raises ?w"
    by simp
  note rest = t [THEN conjunct2, THEN conjunct2, THEN conjunct2, THEN conjunct2,
      THEN conjunct2, THEN conjunct2, THEN conjunct2]
  from rest [THEN conjunct2, THEN conjunct2, THEN conjunct2, rule_format, OF agree]
  have a: "snd (setup_kaggle_credentials None (Some ''u'') (Some ''k'') ?w')
             = snd (setup_kaggle_credentials None (Some ''u'') (Some ''k'') ?w)"
    by simp
  from rest [THEN conjunct1]
  have b: "environ (fst (setup_kaggle_credentials None (Some ''u'') (Some ''k'') ?w))
                    = [''KAGGLE_USERNAME'' \<mapsto> ''u'', ''KAGGLE_KEY'' \<mapsto> ''k'']"
    by (simp add: truthy_def putenv_error_def)
  from rest [THEN conjunct2, THEN conjunct1]
  have none: "snd (setup_kaggle_credentials None (Some ''u'') (Some ''k'') ?w) = None"
    by (simp add: truthy_def putenv_error_def)
  from rest [THEN conjunct2, THEN conjunct2, THEN conjunct1] none
  have c: "printed (fst (setup_kaggle_credentials None (Some ''u'') (Some ''k'') ?w))
             = [Print ''Using provided Kaggle credentials (legacy format)'']"
    by (simp add: truthy_def)
  from a b c show ?thesis by simp
qed

text \<open>
  C8 as stated fails: with an explicit token the resolver writes \<^verbatim>\<open>KAGGLE_API_TOKEN\<close>
  into an environment that did not hold it.
\<close>

theorem resolver_sets_environment_counterexample:
  "environ (fst (setup_kaggle_credentials (Some ''tok'') None None
     \<lparr>environ = Map.empty, home_dir = ''/home/user'',
      kaggle_json_exists = False, db_file = None, raw_data_dir = [], printed = [],
      api_calls = 0, dbt_calls = 0, putenv_raises = (\<lambda>k v. None)\<rparr>)) ''KAGGLE_API_TOKEN''
     = Some ''tok''
   \<and> environ \<lparr>environ = Map.empty, home_dir = ''/home/user'',
      kaggle_json_exists = False, db_file = None, raw_data_dir = [], printed = [],
      api_calls = 0, dbt_calls = 0, putenv_raises = (\<lambda>k v. None)\<rparr> ''KAGGLE_API_TOKEN''
     = None"
  by (simp add: setup_kaggle_credentials_def truthy_def print_def setenv_def putenv_error_def)

text \<open>
  C9, as amended. The application's getter never raises, and \<open>(None, None, None)\<close> is
  an ordinary result of it. The resolver has no not-found value to return: when no source
  matches it raises its \<^verbatim>\<open>ValueError\<close>, whose text is the whole help text, and leaves
  its surroundings unchanged. It raises nothing else except what a refused assignment of
  an explicit credential to the environment raises; when a source matches and the
  assignments are accepted, it returns. The not-found error is raised inside the download
  stage, before any request to the dataset API; the handler of the download button
  catches it, sets the status to \<open>not_started\<close> and shows the help text.
\<close>

theorem not_found_is_raised_and_caught:
  "(\<not> truthy api_token \<and> \<not> truthy (environ w ''KAGGLE_API_TOKEN'')
      \<and> \<not> (truthy username \<and> truthy key)
      \<and> \<not> (truthy (environ w ''KAGGLE_USERNAME'') \<and> truthy (environ w ''KAGGLE_KEY''))
      \<and> \<not> kaggle_json_exists w
    \<longrightarrow> setup_kaggle_credentials api_token username key w = (w, Some credentials_not_found))
   \<and> (snd (setup_kaggle_credentials api_token username key w) = None
        \<or> setup_kaggle_credentials api_token username key w = (w, Some credentials_not_found)
        \<or> (\<exists>k v. putenv_error w k v \<noteq> None
              \<and> snd (setup_kaggle_credentials api_token username key w) = putenv_error w k v))
   \<and> ((truthy api_token \<or> truthy (environ w ''KAGGLE_API_TOKEN'')
         \<or> (truthy username \<and> truthy key)
         \<or> (truthy (environ w ''KAGGLE_USERNAME'') \<and> truthy (environ w ''KAGGLE_KEY''))
         \<or> kaggle_json_exists w)
        \<and> (truthy api_token \<longrightarrow> putenv_error w ''KAGGLE_API_TOKEN'' (the api_token) = None)
        \<and> (truthy username \<and> truthy key \<longrightarrow>
              putenv_error w ''KAGGLE_USERNAME'' (the username) = None
              \<and> putenv_error w ''KAGGLE_KEY'' (the key) = None)
      \<longrightarrow> snd (setup_kaggle_credentials api_token username key w) = None)
   \<and> (\<exists>c. get_kaggle_credentials sec = Inr c)
   \<and> (get_kaggle_credentials sec = Inr (api_token, username, key)
        \<and> \<not> truthy api_token \<and> \<not> truthy (environ (app_world a) ''KAGGLE_API_TOKEN'')
        \<and> \<not> (truthy username \<and> truthy key)
        \<and> \<not> (truthy (environ (app_world a) ''KAGGLE_USERNAME'')
              \<and> truthy (environ (app_world a) ''KAGGLE_KEY''))
        \<and> \<not> kaggle_json_exists (app_world a)
        \<and> mkdir_raises ext = None \<and> import_kaggle_raises ext = None
      \<longrightarrow> download_handler ext project_root sec a =
            (a\<lparr>session := (session a)\<lparr>pipeline_status := Some ''not_started''\<rparr>,
               shown := shown a @ [St_error (cross_mark @ '' Error: '' @ credentials_help),
                                  St_info credentials_hint]\<rparr>, None))"
proof -
  let ?r = "setup_kaggle_credentials api_token username key w"
  have absent: "\<not> truthy api_token \<and> \<not> truthy (environ w ''KAGGLE_API_TOKEN'')
      \<and> \<not> (truthy username \<and> truthy key)
      \<and> \<not> (truthy (environ w ''KAGGLE_USERNAME'') \<and> truthy (environ w ''KAGGLE_KEY''))
      \<and> \<not> kaggle_json_exists w
    \<longrightarrow> ?r = (w, Some credentials_not_found)"
    using setup_none [of api_token w username key] by blast
  have only: "snd ?r = None \<or> ?r = (w, Some credentials_not_found)
        \<or> (\<exists>k v. putenv_error w k v \<noteq> None \<and> snd ?r = putenv_error w k v)"
  proof (cases "snd ?r")
    case None
    then show ?thesis by simp
  next
    case (Some e)
    show ?thesis
    proof (cases "truthy api_token")
      case True
      with Some setup_kaggle_credentials_raised [of api_token username key w]
      have "putenv_error w ''KAGGLE_API_TOKEN'' (the api_token) \<noteq> None
            \<and> snd ?r = putenv_error w ''KAGGLE_API_TOKEN'' (the api_token)"
        by simp
      then show ?thesis by blast
    next
      case no_token: False
      show ?thesis
      proof (cases "truthy (environ w ''KAGGLE_API_TOKEN'')")
        case True
        with no_token Some setup_kaggle_credentials_raised [of api_token username key w]
        show ?thesis by simp
      next
        case no_env_token: False
        show ?thesis
        proof (cases "truthy username \<and> truthy key")
          case True
          with no_token no_env_token Some
            setup_kaggle_credentials_raised [of api_token username key w]
          have "(putenv_error w ''KAGGLE_USERNAME'' (the username) \<noteq> None
                  \<and> snd ?r = putenv_error w ''KAGGLE_USERNAME'' (the username))
                \<or> (putenv_error w ''KAGGLE_KEY'' (the key) \<noteq> None
                  \<and> snd ?r = putenv_error w ''KAGGLE_KEY'' (the key))"
            by (simp split: if_splits)
          then show ?thesis by blast
        next
          case no_pair: False
          show ?thesis
          proof (cases "\<not> (truthy (environ w ''KAGGLE_USERNAME'')
                            \<and> truthy (environ w ''KAGGLE_KEY''))
                        \<and> \<not> kaggle_json_exists w")
            case True
            with no_token no_env_token no_pair absent show ?thesis by blast
          next
            case False
            with no_token no_env_token no_pair Some
              setup_kaggle_credentials_raised [of api_token username key w]
            show ?thesis by (simp split: if_splits)
          qed
        qed
      qed
    qed
  qed
  have found: "(truthy api_token \<or> truthy (environ w ''KAGGLE_API_TOKEN'')
         \<or> (truthy username \<and> truthy key)
         \<or> (truthy (environ w ''KAGGLE_USERNAME'') \<and> truthy (environ w ''KAGGLE_KEY''))
         \<or> kaggle_json_exists w)
        \<and> (truthy api_token \<longrightarrow> putenv_error w ''KAGGLE_API_TOKEN'' (the api_token) = None)
        \<and> (truthy username \<and> truthy key \<longrightarrow>
              putenv_error w ''KAGGLE_USERNAME'' (the username) = None
              \<and> putenv_error w ''KAGGLE_KEY'' (the key) = None)
      \<longrightarrow> snd ?r = None"
    by (simp only: setup_kaggle_credentials_raised) auto
  have getter: "\<exists>c. get_kaggle_credentials sec = Inr c"
    by (rule get_kaggle_credentials_returns)
  have caught: "get_kaggle_credentials sec = Inr (api_token, username, key)
        \<and> \<not> truthy api_token \<and> \<not> truthy (environ (app_world a) ''KAGGLE_API_TOKEN'')
        \<and> \<not> (truthy username \<and> truthy key)
        \<and> \<not> (truthy (environ (app_world a) ''KAGGLE_USERNAME'')
              \<and> truthy (environ (app_world a) ''KAGGLE_KEY''))
        \<and> \<not> kaggle_json_exists (app_world a)
        \<and> mkdir_raises ext = None \<and> import_kaggle_raises ext = None
      \<longrightarrow> download_handler ext project_root sec a =
            (a\<lparr>session := (session a)\<lparr>pipeline_status := Some ''not_started''\<rparr>,
               shown := shown a @ [St_error (cross_mark @ '' Error: '' @ credentials_help),
                                  St_info credentials_hint]\<rparr>, None)"
  proof (intro impI, elim conjE)
    assume creds: "get_kaggle_credentials sec = Inr (api_token, username, key)"
      and n1: "\<not> truthy api_token"
      and n2: "\<not> truthy (environ (app_world a) ''KAGGLE_API_TOKEN'')"
      and n3: "\<not> (truthy username \<and> truthy key)"
      and n4: "\<not> (truthy (environ (app_world a) ''KAGGLE_USERNAME'')
              \<and> truthy (environ (app_world a) ''KAGGLE_KEY''))"
      and n5: "\<not> kaggle_json_exists (app_world a)"
      and mk: "mkdir_raises ext = None" and imp: "import_kaggle_raises ext = None"
    from setup_none [OF n1 n2 n3 n4 n5]
    have "setup_kaggle_credentials api_token username key (app_world a)
               = (app_world a, Some credentials_not_found)" .
    with creds mk imp have "download_try ext project_root sec (app_world a)
                 = (app_world a, Inl credentials_not_found)"
      by (simp add: download_try_def download_and_load_data_def download_kaggle_dataset_def
          Let_def)
    then show "download_handler ext project_root sec a =
            (a\<lparr>session := (session a)\<lparr>pipeline_status := Some ''not_started''\<rparr>,
               shown := shown a @ [St_error (cross_mark @ '' Error: '' @ credentials_help),
                                  St_info credentials_hint]\<rparr>, None)"
      by (simp add: download_handler_def Let_def set_status_def after_download_def show_ui_def
          credentials_not_found_def)
  qed
  show ?thesis
    by (intro conjI absent only found getter caught)
qed

theorem not_found_is_raised_and_caught_witness:
  "download_handler
      \<lparr>unlink_raises = None, mkdir_raises = None, import_kaggle_raises = None,
       kaggle_fetch = (\<lambda>env js. Inr []), duckdb_connect_raises = None,
       create_table_raises = (\<lambda>n. None), duckdb_close_raises = None,
       dbt = (\<lambda>cmd. \<lparr>launch_raises = None, runtime = Some 7, returncode = 0,
                      stdout = [], stderr = [], output_raises = None\<rparr>)\<rparr>
      ''/app'' (Secrets None)
      \<lparr>session = \<lparr>data_loaded = Some False, dbt_built = Some False,
                  pipeline_status = Some ''not_started''\<rparr>,
       app_world = \<lparr>environ = Map.empty, home_dir = ''/home/user'',
                    kaggle_json_exists = False, db_file = None,
                    raw_data_dir = [], printed = [], api_calls = 0, dbt_calls = 0,
                    putenv_raises = (\<lambda>k v. None)\<rparr>,
       shown = []\<rparr>
   = (\<lparr>session = \<lparr>data_loaded = Some False, dbt_built = Some False,
                  pipeline_status = Some ''not_started''\<rparr>,
       app_world = \<lparr>environ = Map.empty, home_dir = ''/home/user'',
                    kaggle_json_exists = False, db_file = None,
                    raw_data_dir = [], printed = [], api_calls = 0, dbt_calls = 0,
                    putenv_raises = (\<lambda>k v. None)\<rparr>,
       shown = [St_error (cross_mark @ '' Error: '' @ credentials_help),
                St_info credentials_hint]\<rparr>, None)
   \<and> snd (setup_kaggle_credentials (Some ''tok'') None None
       \<lparr>environ = Map.empty, home_dir = ''/home/user'',
        kaggle_json_exists = False, db_file = None,
        raw_data_dir = [], printed = [], api_calls = 0, dbt_calls = 0,
        putenv_raises = (\<lambda>k v. None)\<rparr>) = None"
  (is "download_handler ?ext ?root ?sec ?a = _ \<and> _")
proof -
  let ?w = "\<lparr>environ = Map.empty, home_dir = ''/home/user'',
        kaggle_json_exists = False, db_file = None,
        raw_data_dir = [], printed = [], api_calls = 0, dbt_calls = 0,
        putenv_raises = (\<lambda>k v. None)\<rparr>"
  have creds: "get_kaggle_credentials ?sec = Inr (None, None, None)"
    by (simp add: get_kaggle_credentials_def credentials_try_def secrets_kaggle_has_def)
  note caught = not_found_is_raised_and_caught [of None ?w None None ?sec ?a ?ext ?root,
      THEN conjunct2, THEN conjunct2, THEN conjunct2, THEN conjunct2, rule_format]
  from caught creds
  have a: "download_handler ?ext ?root ?sec ?a =
            (?a\<lparr>session := (session ?a)\<lparr>pipeline_status := Some ''not_started''\<rparr>,
               shown := shown ?a @ [St_error (cross_mark @ '' Error: '' @ credentials_help),
                                  St_info credentials_hint]\<rparr>, None)"
    by (simp add: truthy_def)
  note found = not_found_is_raised_and_caught [of "Some ''tok''" ?w None None ?sec ?a ?ext ?root,
      THEN conjunct2, THEN conjunct2, THEN conjunct1, rule_format]
  from found
  have b: "snd (setup_kaggle_credentials (Some ''tok'') None None ?w) = None"
    by (simp add: truthy_def putenv_error_def)
  from a b show ?thesis by simp
qed

text \<open>
  C9 as stated fails: with no source of credentials the resolver raises.
\<close>

theorem resolver_raises_counterexample:
  "snd (setup_kaggle_credentials None None None
     \<lparr>environ = Map.empty, home_dir = ''/home/user'',
      kaggle_json_exists = False, db_file = None, raw_data_dir = [], printed = [],
      api_calls = 0, dbt_calls = 0, putenv_raises = (\<lambda>k v. None)\<rparr>)
   = Some (Raise ValueError credentials_help)
   \<and> length credentials_help = 384"
  by (simp add: setup_kaggle_credentials_def truthy_def credentials_not_found_def
      credentials_help_length)

section \<open>The load stage\<close>

lemma filter_other_key:
  "k' \<noteq> k \<Longrightarrow> filter (\<lambda>x. g x \<noteq> k \<and> g x = k') ts = filter (\<lambda>x. g x = k') ts"
  by (rule filter_cong) auto

lemma tables_named_replace:
  "tables_named (create_or_replace_table sch t rows d) sch' t' =
     (if ident (sch', t') = ident (sch, t) then [rows] else tables_named d sch' t')"
  by (auto simp: tables_named_def create_or_replace_table_def replace_table_def
      filter_empty_conv filter_other_key)

lemma select_count_created:
  "select_count sch t (create_or_replace_table sch t rows d) = Inr (length rows)"
  by (simp add: select_count_def tables_named_replace)

lemma load_loop_ok:
  "\<forall>f \<in> set fs. fails (fst f) = None \<Longrightarrow>
     load_loop fails sch fs d out =
       ((d\<lparr>tables := loaded_tables sch fs (tables d)\<rparr>,
         out @ map (\<lambda>f. PrintRows (stem (fst f)) (length (snd f))) fs), None)"
proof (induction fs arbitrary: d out)
  case Nil
  then show ?case by (simp add: loaded_tables_def)
next
  case (Cons f fs)
  then show ?case
    by (simp add: loaded_tables_def select_count_created Let_def)
       (simp add: create_or_replace_table_def)
qed

lemma load_loop_None:
  "load_loop fails sch fs d out = (r, None) \<Longrightarrow> \<forall>f \<in> set fs. fails (fst f) = None"
proof (induction fs arbitrary: d out)
  case Nil
  then show ?case by simp
next
  case (Cons f fs)
  then show ?case
    by (auto simp: select_count_created Let_def split: option.splits)
qed

lemma loaded_tables_split:
  "loaded_tables sch fs ts =
     filter (\<lambda>e. ident (fst e) \<notin> (\<lambda>f. ident (sch, stem (fst f))) ` set fs) ts
       @ loaded_tables sch fs []"
proof (induction fs arbitrary: ts)
  case Nil
  then show ?case by (simp add: loaded_tables_def)
next
  case (Cons f fs)
  have step: "loaded_tables sch (f # fs) us
                = loaded_tables sch fs (replace_table (sch, stem (fst f)) (snd f) us)" for us
    by (simp add: loaded_tables_def)
  have "loaded_tables sch (f # fs) ts
          = filter (\<lambda>e. ident (fst e) \<notin> (\<lambda>f. ident (sch, stem (fst f))) ` set fs)
              (replace_table (sch, stem (fst f)) (snd f) ts) @ loaded_tables sch fs []"
    using Cons.IH [of "replace_table (sch, stem (fst f)) (snd f) ts"] by (simp add: step)
  moreover have "loaded_tables sch (f # fs) []
          = filter (\<lambda>e. ident (fst e) \<notin> (\<lambda>f. ident (sch, stem (fst f))) ` set fs)
              (replace_table (sch, stem (fst f)) (snd f) []) @ loaded_tables sch fs []"
    using Cons.IH [of "replace_table (sch, stem (fst f)) (snd f) []"] by (simp add: step)
  ultimately show ?case
    by (simp add: replace_table_def)
qed

lemma loaded_tables_keys:
  "e \<in> set (loaded_tables sch fs ts) \<Longrightarrow>
     e \<in> set ts \<or> ident (fst e) \<in> (\<lambda>f. ident (sch, stem (fst f))) ` set fs"
proof (induction fs arbitrary: ts)
  case Nil
  then show ?case by (simp add: loaded_tables_def)
next
  case (Cons f fs)
  from Cons.prems
  have "e \<in> set (loaded_tables sch fs (replace_table (sch, stem (fst f)) (snd f) ts))"
    by (simp add: loaded_tables_def)
  from Cons.IH [OF this] show ?case
    by (auto simp: replace_table_def)
qed

lemma loaded_tables_idem:
  "loaded_tables sch fs (loaded_tables sch fs ts) = loaded_tables sch fs ts"
proof -
  let ?K = "(\<lambda>f. ident (sch, stem (fst f))) ` set fs"
  have "filter (\<lambda>e. ident (fst e) \<notin> ?K) (loaded_tables sch fs []) = []"
    using loaded_tables_keys [of _ sch fs "[]"] by (auto simp: filter_empty_conv)
  then have "filter (\<lambda>e. ident (fst e) \<notin> ?K) (loaded_tables sch fs ts)
               = filter (\<lambda>e. ident (fst e) \<notin> ?K) ts"
    using loaded_tables_split [of sch fs ts] by simp
  then show ?thesis
    using loaded_tables_split [of sch fs "loaded_tables sch fs ts"]
      loaded_tables_split [of sch fs ts] by simp
qed

lemma loaded_tables_named:
  "map snd (filter (\<lambda>e. ident (fst e) = ident (sch, t)) (loaded_tables sch fs ts)) =
     (case filter (\<lambda>f. ident (sch, stem (fst f)) = ident (sch, t)) fs of
        [] \<Rightarrow> map snd (filter (\<lambda>e. ident (fst e) = ident (sch, t)) ts)
      | m # ms \<Rightarrow> [snd (last (m # ms))])"
proof (induction fs arbitrary: ts)
  case Nil
  then show ?case by (simp add: loaded_tables_def)
next
  case (Cons f fs)
  have step: "loaded_tables sch (f # fs) ts
                = loaded_tables sch fs (replace_table (sch, stem (fst f)) (snd f) ts)"
    by (simp add: loaded_tables_def)
  show ?case
    unfolding step Cons.IH
    by (auto simp: replace_table_def filter_empty_conv filter_other_key split: list.splits)
qed

lemma create_schema_tables:
  "tables (create_schema_if_not_exists sch d) = tables d"
  by (simp add: create_schema_if_not_exists_def)

lemma create_schema_idem:
  "create_schema_if_not_exists sch ((create_schema_if_not_exists sch d)\<lparr>tables := ts\<rparr>)
     = (create_schema_if_not_exists sch d)\<lparr>tables := ts\<rparr>"
  by (simp add: create_schema_if_not_exists_def)

lemma connect_and_load_success:
  assumes "connect_and_load ext sch fs w = (w1, None)"
  shows "w1 = w\<lparr>db_file :=
                   Some ((create_schema_if_not_exists sch
                            (case db_file w of None \<Rightarrow> empty_database | Some d \<Rightarrow> d))
                         \<lparr>tables := loaded_tables sch (sort_key fst fs)
                             (tables (case db_file w of None \<Rightarrow> empty_database | Some d \<Rightarrow> d))\<rparr>),
                 printed := printed w
                   @ map (\<lambda>f. PrintRows (stem (fst f)) (length (snd f))) (sort_key fst fs)
                   @ [Print ''Complete!'']\<rparr>"
proof -
  let ?d1 = "create_schema_if_not_exists sch
               (case db_file w of None \<Rightarrow> empty_database | Some d \<Rightarrow> d)"
  let ?run = "load_loop (create_table_raises ext) sch (sort_key fst fs) ?d1 (printed w)"
  from assms have conn: "duckdb_connect_raises ext = None"
    by (auto simp: connect_and_load_def split: option.splits)
  from assms conn have ok: "snd ?run = None"
    by (auto simp: connect_and_load_def Let_def split: option.splits prod.splits)
  then have "?run = (fst ?run, None)" by (simp add: prod_eq_iff)
  from load_loop_None [OF this]
  have "\<forall>f \<in> set (sort_key fst fs). create_table_raises ext (fst f) = None" .
  from load_loop_ok [OF this, of sch ?d1 "printed w"]
  have run: "?run = ((?d1\<lparr>tables := loaded_tables sch (sort_key fst fs) (tables ?d1)\<rparr>,
                printed w @ map (\<lambda>f. PrintRows (stem (fst f)) (length (snd f)))
                  (sort_key fst fs)), None)" .
  from assms conn show ?thesis
    unfolding connect_and_load_def Let_def run
    by (auto simp: print_def create_schema_tables split: option.splits)
qed

lemma connect_and_load_named:
  assumes "connect_and_load ext sch fs w = (w1, None)" and "f \<in> set fs"
  shows "\<exists>d. db_file w1 = Some d
     \<and> tables_named d sch (stem (fst f)) =
         [snd (last (filter (\<lambda>g. ident (sch, stem (fst g)) = ident (sch, stem (fst f)))
                       (sort_key fst fs)))]
     \<and> PrintRows (stem (fst f)) (length (snd f)) \<in> set (printed w1)"
proof -
  let ?ms = "filter (\<lambda>g. ident (sch, stem (fst g)) = ident (sch, stem (fst f)))
               (sort_key fst fs)"
  from assms(2) have "f \<in> set ?ms" by simp
  then obtain m ms where ms: "?ms = m # ms" by (cases ?ms) auto
  from assms(2) have "PrintRows (stem (fst f)) (length (snd f))
      \<in> set (map (\<lambda>f. PrintRows (stem (fst f)) (length (snd f))) (sort_key fst fs))"
    by (simp add: image_iff) blast
  with connect_and_load_success [OF assms(1)] loaded_tables_named [where sch = sch and t = "stem (fst f)" and fs = "sort_key fst fs"] ms
  show ?thesis
    by (simp add: tables_named_def)
qed

lemma connect_and_load_again:
  assumes "connect_and_load ext sch fs w = (w1, None)"
    and "connect_and_load ext sch fs w1 = (w2, None)"
  shows "db_file w2 = db_file w1"
  using connect_and_load_success [OF assms(1)] connect_and_load_success [OF assms(2)]
  by (simp add: create_schema_idem create_schema_tables loaded_tables_idem)

lemma only_file_last:
  assumes "f \<in> set fs"
    and "\<forall>g \<in> set fs. k g = k f \<longrightarrow> g = f"
  shows "last (filter (\<lambda>g. k g = k f) (sort_key fst fs)) = f"
proof -
  let ?ms = "filter (\<lambda>g. k g = k f) (sort_key fst fs)"
  from assms(1) have ne: "?ms \<noteq> []" by (auto simp: filter_empty_conv)
  then have "last ?ms \<in> set ?ms" by (rule last_in_set)
  with assms(2) show ?thesis by auto
qed

text \<open>
  C6. Let a load of the CSV directory succeed, and let a second load (of the same files or
  of changed ones) succeed after it. Then for every CSV file \<open>f\<close> of the second load
  the catalog holds exactly one table under the schema and the base name of \<open>f\<close>; it
  holds the rows of the file loaded last under that name, which is \<open>f\<close> itself when no
  other file of the directory has the same table name, and then the row count is that of
  \<open>f\<close>; the line printed for \<open>f\<close> reports the row count of \<open>f\<close>. When the second load
  reads the same files as the first, the database after it is the database before it.
\<close>

theorem reload_overwrites:
  assumes first: "load_csv_to_duckdb ext csv_dir sch w = (w1, None)"
    and again: "load_csv_to_duckdb ext csv_dir sch (w1\<lparr>raw_data_dir := dir2\<rparr>) = (w2, None)"
    and infile: "f \<in> set (glob_csv dir2)"
  shows "(\<exists>d. db_file w2 = Some d
            \<and> tables_named d sch (stem (fst f)) =
                [snd (last (filter (\<lambda>g. ident (sch, stem (fst g)) = ident (sch, stem (fst f)))
                              (sort_key fst (glob_csv dir2))))]
            \<and> ((\<forall>g \<in> set (glob_csv dir2).
                   ident (sch, stem (fst g)) = ident (sch, stem (fst f)) \<longrightarrow> g = f)
                \<longrightarrow> tables_named d sch (stem (fst f)) = [snd f]
                    \<and> select_count sch (stem (fst f)) d = Inr (length (snd f))))
       \<and> PrintRows (stem (fst f)) (length (snd f)) \<in> set (printed w2)
       \<and> (dir2 = raw_data_dir w \<longrightarrow> db_file w2 = db_file w1)"
proof -
  from infile have ne: "glob_csv dir2 \<noteq> []" by auto
  with again have c2: "connect_and_load ext sch (glob_csv dir2) (w1\<lparr>raw_data_dir := dir2\<rparr>)
                         = (w2, None)"
    by (simp add: load_csv_to_duckdb_def Let_def)
  from connect_and_load_named [OF c2 infile] obtain d where
    d: "db_file w2 = Some d"
    and named: "tables_named d sch (stem (fst f)) =
         [snd (last (filter (\<lambda>g. ident (sch, stem (fst g)) = ident (sch, stem (fst f)))
                       (sort_key fst (glob_csv dir2))))]"
    and pr: "PrintRows (stem (fst f)) (length (snd f)) \<in> set (printed w2)"
    by blast
  have uniq: "tables_named d sch (stem (fst f)) = [snd f]
                \<and> select_count sch (stem (fst f)) d = Inr (length (snd f))"
    if only: "\<forall>g \<in> set (glob_csv dir2).
                 ident (sch, stem (fst g)) = ident (sch, stem (fst f)) \<longrightarrow> g = f"
    using named only_file_last [OF infile, of "\<lambda>g. ident (sch, stem (fst g))"] only
    by (simp add: select_count_def)
  have same: "db_file w2 = db_file w1" if eq: "dir2 = raw_data_dir w"
  proof -
    from first have c1: "connect_and_load ext sch (glob_csv (raw_data_dir w)) w = (w1, None)"
      by (auto simp: load_csv_to_duckdb_def Let_def split: if_splits)
    from connect_and_load_success [OF c1] have "raw_data_dir w1 = raw_data_dir w"
      by simp
    with eq have "w1\<lparr>raw_data_dir := dir2\<rparr> = w1" by simp
    with c2 eq have "connect_and_load ext sch (glob_csv (raw_data_dir w)) w1 = (w2, None)"
      by simp
    from connect_and_load_again [OF c1 this] show ?thesis .
  qed
  from d named pr uniq same show ?thesis by blast
qed

lemma connect_and_load_succeeds:
  assumes "duckdb_connect_raises ext = None"
    and "\<forall>f \<in> set fs. create_table_raises ext (fst f) = None"
    and "duckdb_close_raises ext = None"
  shows "snd (connect_and_load ext sch fs w) = None"
proof -
  from assms(2) have "\<forall>f \<in> set (sort_key fst fs). create_table_raises ext (fst f) = None"
    by simp
  from load_loop_ok [OF this] assms(1,3) show ?thesis
    by (simp add: connect_and_load_def Let_def)
qed

lemma load_csv_to_duckdb_succeeds:
  assumes "glob_csv (raw_data_dir w) \<noteq> []"
    and "duckdb_connect_raises ext = None"
    and "\<forall>f \<in> set (glob_csv (raw_data_dir w)). create_table_raises ext (fst f) = None"
    and "duckdb_close_raises ext = None"
  shows "snd (load_csv_to_duckdb ext csv_dir sch w) = None"
  using assms by (simp add: load_csv_to_duckdb_def Let_def connect_and_load_succeeds)

text \<open>What makes the loads of the theorem succeed, and one such pair of loads.\<close>

lemma stem_orders: "stem ''orders.csv'' = ''orders''"
  by (simp add: stem_def Let_def)

theorem reload_overwrites_witness:
  "\<exists>d. db_file (fst (load_csv_to_duckdb
           \<lparr>unlink_raises = None, mkdir_raises = None, import_kaggle_raises = None,
            kaggle_fetch = (\<lambda>env js. Inr []), duckdb_connect_raises = None,
            create_table_raises = (\<lambda>n. None), duckdb_close_raises = None,
            dbt = (\<lambda>cmd. \<lparr>launch_raises = None, runtime = Some 7, returncode = 0,
                           stdout = [], stderr = [],
              output_raises = None\<rparr>)\<rparr>
           ''/app/data/raw'' ''raw''
           ((fst (load_csv_to_duckdb
              \<lparr>unlink_raises = None, mkdir_raises = None, import_kaggle_raises = None,
               kaggle_fetch = (\<lambda>env js. Inr []), duckdb_connect_raises = None,
               create_table_raises = (\<lambda>n. None), duckdb_close_raises = None,
               dbt = (\<lambda>cmd. \<lparr>launch_raises = None, runtime = Some 7, returncode = 0,
                              stdout = [], stderr = [],
              output_raises = None\<rparr>)\<rparr>
              ''/app/data/raw'' ''raw''
              \<lparr>environ = Map.empty, home_dir = ''/home/user'', kaggle_json_exists = False,
               db_file = None,
               raw_data_dir = [(''orders.csv'', [[''1'', ''a''], [''2'', ''b''], [''3'', ''c'']])],
               printed = [], api_calls = 0, dbt_calls = 0,
      putenv_raises = (\<lambda>k v. None)\<rparr>))
            \<lparr>raw_data_dir := [(''orders.csv'', [[''1'', ''a''], [''2'', ''b'']])]\<rparr>))) = Some d
      \<and> tables_named d ''raw'' ''orders'' = [[[''1'', ''a''], [''2'', ''b'']]]
      \<and> select_count ''raw'' ''orders'' d = Inr 2"
  (is "\<exists>d. db_file (fst (load_csv_to_duckdb ?ext ?dir ?sch
                            ((fst (load_csv_to_duckdb ?ext ?dir ?sch ?w))\<lparr>raw_data_dir := ?dir2\<rparr>)))
              = Some d \<and> _ \<and> _")
proof -
  let ?f = "(''orders.csv'', [[''1'', ''a''], [''2'', ''b'']])"
  let ?w1 = "fst (load_csv_to_duckdb ?ext ?dir ?sch ?w)"
  let ?w2 = "fst (load_csv_to_duckdb ?ext ?dir ?sch (?w1\<lparr>raw_data_dir := ?dir2\<rparr>))"
  have g1: "glob_csv [(''orders.csv'', [[''1'', ''a''], [''2'', ''b''], [''3'', ''c'']])]
              = [(''orders.csv'', [[''1'', ''a''], [''2'', ''b''], [''3'', ''c'']])]"
    by (simp add: glob_csv_def ends_with_def)
  have g2: "glob_csv ?dir2 = ?dir2"
    by (simp add: glob_csv_def ends_with_def)
  have "snd (load_csv_to_duckdb ?ext ?dir ?sch ?w) = None"
    by (rule load_csv_to_duckdb_succeeds) (simp_all add: g1)
  then have first: "load_csv_to_duckdb ?ext ?dir ?sch ?w = (?w1, None)"
    by (simp add: prod_eq_iff)
  have "snd (load_csv_to_duckdb ?ext ?dir ?sch (?w1\<lparr>raw_data_dir := ?dir2\<rparr>)) = None"
    by (rule load_csv_to_duckdb_succeeds) (simp_all add: g2)
  then have again: "load_csv_to_duckdb ?ext ?dir ?sch (?w1\<lparr>raw_data_dir := ?dir2\<rparr>) = (?w2, None)"
    by (simp add: prod_eq_iff)
  have infile: "?f \<in> set (glob_csv ?dir2)"
    by (simp add: g2)
  from reload_overwrites [OF first again infile] show ?thesis
    by (simp add: g2 stem_orders numeral_2_eq_2)
qed

text \<open>The same holds for the stand-alone script, which loads into the schema \<open>raw\<close>.\<close>

lemma load_raw_data_reload_overwrites:
  assumes first: "load_raw_data ext w = (w1, None)"
    and again: "load_raw_data ext (w1\<lparr>raw_data_dir := dir2\<rparr>) = (w2, None)"
    and infile: "f \<in> set (glob_csv dir2)"
  shows "(\<exists>d. db_file w2 = Some d
            \<and> tables_named d ''raw'' (stem (fst f)) =
                [snd (last (filter (\<lambda>g. ident (''raw'', stem (fst g)) = ident (''raw'', stem (fst f)))
                              (sort_key fst (glob_csv dir2))))])
       \<and> PrintRows (stem (fst f)) (length (snd f)) \<in> set (printed w2)"
proof -
  from infile have ne: "glob_csv dir2 \<noteq> []" by auto
  with again have c2: "connect_and_load ext ''raw'' (glob_csv dir2) (w1\<lparr>raw_data_dir := dir2\<rparr>)
                         = (w2, None)"
    by (simp add: load_raw_data_def Let_def)
  from connect_and_load_named [OF c2 infile] show ?thesis by blast
qed

section \<open>The pipeline driver\<close>

lemma setup_kaggle_credentials_calls:
  "api_calls (fst (setup_kaggle_credentials api_token username key w)) = api_calls w"
  using setup_kaggle_credentials_frame [of api_token username key w] by simp

lemma download_kaggle_dataset_calls:
  "api_calls (fst (download_kaggle_dataset ext api_token username key w)) \<le> api_calls w + 1"
proof (cases "setup_kaggle_credentials api_token username key w")
  case (Pair w1 r)
  with setup_kaggle_credentials_calls [of api_token username key w]
  have "api_calls w1 = api_calls w" by simp
  with Pair show ?thesis
    by (auto simp: download_kaggle_dataset_def print_def Let_def
        split: option.splits sum.splits)
qed

lemma connect_and_load_calls:
  "api_calls (fst (connect_and_load ext sch fs w)) = api_calls w"
  by (auto simp: connect_and_load_def print_def Let_def split: option.splits prod.splits)

lemma load_csv_to_duckdb_calls:
  "api_calls (fst (load_csv_to_duckdb ext csv_dir sch w)) = api_calls w"
  by (simp add: load_csv_to_duckdb_def Let_def connect_and_load_calls)

lemma download_and_load_data_calls:
  "api_calls (fst (download_and_load_data ext tok u k project_root w)) \<le> api_calls w + 1"
proof (cases "download_kaggle_dataset ext tok u k w")
  case (Pair w1 r)
  with download_kaggle_dataset_calls [of ext tok u k w]
  have w1: "api_calls w1 \<le> api_calls w + 1" by simp
  show ?thesis
  proof (cases "load_csv_to_duckdb ext (project_root @ ''/data/raw'') ''raw'' w1")
    case inner: (Pair w2 r2)
    with load_csv_to_duckdb_calls [of ext "project_root @ ''/data/raw''" "''raw''" w1]
    have "api_calls w2 = api_calls w1" by simp
    with w1 Pair inner show ?thesis
      by (auto simp: download_and_load_data_def Let_def split: option.splits)
  qed
qed

lemma after_download_failure:
  "is_Exception e \<Longrightarrow>
     after_download txt a (w, Inl e) =
       (a\<lparr>session := (session a)\<lparr>pipeline_status := Some ''not_started''\<rparr>, app_world := w,
          shown := shown a @ [St_error (cross_mark @ '' Error: '' @ str e),
                             St_info credentials_hint]\<rparr>, None)"
  by (simp add: after_download_def show_ui_def set_status_def)

text \<open>On the page, a pressed button that is drawn runs its handler and nothing else.\<close>

lemma page_refresh:
  "db_file (app_world a) \<noteq> None \<Longrightarrow>
     data_pipeline_page ext project_root sec ClickRefresh a
       = refresh_handler ext project_root sec a"
  by (cases "refresh_handler ext project_root sec a")
     (auto simp: data_pipeline_page_def split: option.splits)

lemma page_download:
  "db_file (app_world a) = None \<Longrightarrow>
     data_pipeline_page ext project_root sec ClickDownload a
       = download_handler ext project_root sec a"
  by (cases "download_handler ext project_root sec a")
     (auto simp: data_pipeline_page_def split: option.splits)

lemma page_build:
  "db_file (app_world a) \<noteq> None \<Longrightarrow>
     data_pipeline_page ext project_root sec ClickBuild a = build_handler ext project_root a"
  by (auto simp: data_pipeline_page_def)

text \<open>
  C4. With the credentials that the getter returns: when the download-and-load call of the
  refresh button (made after the store has been deleted) or of the first download button
  raises an exception \<open>e\<close> of a class under \<^verbatim>\<open>Exception\<close>, the handler ends with the
  status \<open>not_started\<close>, shows the error text that ends in \<open>str e\<close>, raises nothing, and
  has made at most one request to the dataset API. When the dbt build reports failure
  (a non-zero exit, a timeout or a failed launch), the handler shows the output and an
  error, has started one process, and leaves the session state, and so the status, as it
  was.
\<close>

theorem stage_failure_rolls_back:
  assumes creds: "get_kaggle_credentials sec = Inr (tok, u, k)"
  shows "(\<forall>w' e. is_Exception e \<and> unlink_raises ext = None
            \<and> download_and_load_data ext tok u k project_root ((app_world a)\<lparr>db_file := None\<rparr>)
                = (w', Inl e)
          \<longrightarrow> refresh_handler ext project_root sec a =
                (a\<lparr>session := (session a)\<lparr>pipeline_status := Some ''not_started''\<rparr>,
                   app_world := w',
                   shown := shown a @ [St_error (cross_mark @ '' Error: '' @ str e),
                                      St_info credentials_hint]\<rparr>, None)
              \<and> api_calls w' \<le> api_calls (app_world a) + 1)
       \<and> (\<forall>w' e. is_Exception e
            \<and> download_and_load_data ext tok u k project_root (app_world a) = (w', Inl e)
          \<longrightarrow> download_handler ext project_root sec a =
                (a\<lparr>session := (session a)\<lparr>pipeline_status := Some ''not_started''\<rparr>,
                   app_world := w',
                   shown := shown a @ [St_error (cross_mark @ '' Error: '' @ str e),
                                      St_info credentials_hint]\<rparr>, None)
              \<and> api_calls w' \<le> api_calls (app_world a) + 1)
       \<and> (\<forall>out. run_dbt_command (dbt ext) project_root ''build'' [] = Inr (False, out)
          \<longrightarrow> build_handler ext project_root a =
                (a\<lparr>app_world := (app_world a)\<lparr>dbt_calls := dbt_calls (app_world a) + 1\<rparr>,
                   shown := shown a @ [St_code out,
                     St_error (cross_mark @ '' dbt build failed. Check output above.'')]\<rparr>,
                 None)
              \<and> session (fst (build_handler ext project_root a)) = session a)"
proof (intro conjI allI impI)
  fix w' e
  assume h: "is_Exception e \<and> unlink_raises ext = None
            \<and> download_and_load_data ext tok u k project_root ((app_world a)\<lparr>db_file := None\<rparr>)
                = (w', Inl e)"
  have same: "db_file (app_world a) = None \<Longrightarrow> (app_world a)\<lparr>db_file := None\<rparr> = app_world a"
    by simp
  from h creds have "refresh_try ext project_root sec (app_world a) = (w', Inl e)"
    by (cases "db_file (app_world a) = None") (auto simp: refresh_try_def same)
  with h show "refresh_handler ext project_root sec a =
                (a\<lparr>session := (session a)\<lparr>pipeline_status := Some ''not_started''\<rparr>,
                   app_world := w',
                   shown := shown a @ [St_error (cross_mark @ '' Error: '' @ str e),
                                      St_info credentials_hint]\<rparr>, None)"
    by (simp add: refresh_handler_def Let_def set_status_def after_download_failure)
  from h download_and_load_data_calls [of ext tok u k project_root "(app_world a)\<lparr>db_file := None\<rparr>"]
  show "api_calls w' \<le> api_calls (app_world a) + 1" by simp
next
  fix w' e
  assume h: "is_Exception e
            \<and> download_and_load_data ext tok u k project_root (app_world a) = (w', Inl e)"
  with creds have "download_try ext project_root sec (app_world a) = (w', Inl e)"
    by (simp add: download_try_def)
  with h show "download_handler ext project_root sec a =
                (a\<lparr>session := (session a)\<lparr>pipeline_status := Some ''not_started''\<rparr>,
                   app_world := w',
                   shown := shown a @ [St_error (cross_mark @ '' Error: '' @ str e),
                                      St_info credentials_hint]\<rparr>, None)"
    by (simp add: download_handler_def Let_def set_status_def after_download_failure)
  from h download_and_load_data_calls [of ext tok u k project_root "app_world a"]
  show "api_calls w' \<le> api_calls (app_world a) + 1" by simp
next
  fix out
  assume h: "run_dbt_command (dbt ext) project_root ''build'' [] = Inr (False, out)"
  then show "build_handler ext project_root a =
                (a\<lparr>app_world := (app_world a)\<lparr>dbt_calls := dbt_calls (app_world a) + 1\<rparr>,
                   shown := shown a @ [St_code out,
                     St_error (cross_mark @ '' dbt build failed. Check output above.'')]\<rparr>,
                 None)"
    by (simp add: build_handler_def Let_def show_ui_def count_dbt_call_def)
  from h show "session (fst (build_handler ext project_root a)) = session a"
    by (simp add: build_handler_def Let_def show_ui_def count_dbt_call_def)
qed

text \<open>
  An exception outside \<^verbatim>\<open>Exception\<close> (an interrupt of the process) is not a stage
  error: it passes through the handler, and the status stays \<open>loading\<close>.
\<close>

lemma interrupt_leaves_loading:
  assumes "get_kaggle_credentials sec = Inr (tok, u, k)"
    and "download_and_load_data ext tok u k project_root (app_world a) = (w', Inl e)"
    and "\<not> is_Exception e"
  shows "download_handler ext project_root sec a =
           (a\<lparr>session := (session a)\<lparr>pipeline_status := Some ''loading''\<rparr>, app_world := w'\<rparr>,
            Some e)"
  using assms
  by (simp add: download_handler_def download_try_def Let_def set_status_def after_download_def)

theorem stage_failure_rolls_back_witness:
  "pipeline_status (session (fst (refresh_handler
      \<lparr>unlink_raises = None, mkdir_raises = None, import_kaggle_raises = None,
       kaggle_fetch = (\<lambda>env js. Inl (Raise OtherException ''Connection refused'')),
       duckdb_connect_raises = None, create_table_raises = (\<lambda>n. None),
       duckdb_close_raises = None,
       dbt = (\<lambda>cmd. \<lparr>launch_raises = None, runtime = Some 7, returncode = 1,
                      stdout = ''Compilation Error'', stderr = [],
              output_raises = None\<rparr>)\<rparr>
      ''/app'' (Secrets (Some (KTable [''api_token'' \<mapsto> ''tok''])))
      \<lparr>session = \<lparr>data_loaded = Some True, dbt_built = Some True,
                  pipeline_status = Some ''dbt_built''\<rparr>,
       app_world = \<lparr>environ = Map.empty, home_dir = ''/home/user'',
                    kaggle_json_exists = False,
                    db_file = Some \<lparr>schemas = [''raw'', ''marts''], tables = []\<rparr>,
                    raw_data_dir = [], printed = [], api_calls = 0, dbt_calls = 0,
      putenv_raises = (\<lambda>k v. None)\<rparr>,
       shown = []\<rparr>))) = Some ''not_started''
   \<and> pipeline_status (session (fst (download_handler
      \<lparr>unlink_raises = None, mkdir_raises = None, import_kaggle_raises = None,
       kaggle_fetch = (\<lambda>env js. Inl (Raise OtherException ''Connection refused'')),
       duckdb_connect_raises = None, create_table_raises = (\<lambda>n. None),
       duckdb_close_raises = None,
       dbt = (\<lambda>cmd. \<lparr>launch_raises = None, runtime = Some 7, returncode = 1,
                      stdout = ''Compilation Error'', stderr = [],
              output_raises = None\<rparr>)\<rparr>
      ''/app'' (Secrets (Some (KTable [''api_token'' \<mapsto> ''tok''])))
      \<lparr>session = \<lparr>data_loaded = Some True, dbt_built = Some True,
                  pipeline_status = Some ''dbt_built''\<rparr>,
       app_world = \<lparr>environ = Map.empty, home_dir = ''/home/user'',
                    kaggle_json_exists = False,
                    db_file = Some \<lparr>schemas = [''raw'', ''marts''], tables = []\<rparr>,
                    raw_data_dir = [], printed = [], api_calls = 0, dbt_calls = 0,
      putenv_raises = (\<lambda>k v. None)\<rparr>,
       shown = []\<rparr>))) = Some ''not_started''
   \<and> pipeline_status (session (fst (build_handler
      \<lparr>unlink_raises = None, mkdir_raises = None, import_kaggle_raises = None,
       kaggle_fetch = (\<lambda>env js. Inl (Raise OtherException ''Connection refused'')),
       duckdb_connect_raises = None, create_table_raises = (\<lambda>n. None),
       duckdb_close_raises = None,
       dbt = (\<lambda>cmd. \<lparr>launch_raises = None, runtime = Some 7, returncode = 1,
                      stdout = ''Compilation Error'', stderr = [],
              output_raises = None\<rparr>)\<rparr>
      ''/app''
      \<lparr>session = \<lparr>data_loaded = Some True, dbt_built = Some True,
                  pipeline_status = Some ''dbt_built''\<rparr>,
       app_world = \<lparr>environ = Map.empty, home_dir = ''/home/user'',
                    kaggle_json_exists = False,
                    db_file = Some \<lparr>schemas = [''raw'', ''marts''], tables = []\<rparr>,
                    raw_data_dir = [], printed = [], api_calls = 0, dbt_calls = 0,
      putenv_raises = (\<lambda>k v. None)\<rparr>,
       shown = []\<rparr>))) = Some ''dbt_built''"
  (is "pipeline_status (session (fst (refresh_handler ?ext ?root ?sec ?a))) = _ \<and> _ \<and> _")
proof -
  let ?e = "Raise OtherException ''Connection refused''"
  have creds: "get_kaggle_credentials ?sec = Inr (Some ''tok'', None, None)"
    by (simp add: get_kaggle_credentials_def credentials_try_def secrets_kaggle_has_def
        secrets_kaggle_item_def)
  note t = stage_failure_rolls_back [OF creds, of ?ext ?root ?a]
  have r: "snd (download_and_load_data ?ext (Some ''tok'') None None ?root
             ((app_world ?a)\<lparr>db_file := None\<rparr>)) = Inl ?e"
    by (simp add: download_and_load_data_def download_kaggle_dataset_def
        setup_kaggle_credentials_def truthy_def print_def setenv_def putenv_error_def Let_def)
  have d: "snd (download_and_load_data ?ext (Some ''tok'') None None ?root (app_world ?a))
             = Inl ?e"
    by (simp add: download_and_load_data_def download_kaggle_dataset_def
        setup_kaggle_credentials_def truthy_def print_def setenv_def putenv_error_def Let_def)
  have b: "run_dbt_command (dbt ?ext) ?root ''build'' [] = Inr (False, ''Compilation Error'')"
    by (simp add: run_dbt_command_def subprocess_run_def Let_def)
  from t [THEN conjunct1, rule_format,
      of ?e "fst (download_and_load_data ?ext (Some ''tok'') None None ?root
             ((app_world ?a)\<lparr>db_file := None\<rparr>))"] r
  have c1: "pipeline_status (session (fst (refresh_handler ?ext ?root ?sec ?a)))
              = Some ''not_started''"
    by (simp add: prod_eq_iff)
  from t [THEN conjunct2, THEN conjunct1, rule_format,
      of ?e "fst (download_and_load_data ?ext (Some ''tok'') None None ?root (app_world ?a))"] d
  have c2: "pipeline_status (session (fst (download_handler ?ext ?root ?sec ?a)))
              = Some ''not_started''"
    by (simp add: prod_eq_iff)
  from t [THEN conjunct2, THEN conjunct2, rule_format, OF b]
  have c3: "pipeline_status (session (fst (build_handler ?ext ?root ?a))) = Some ''dbt_built''"
    by simp
  from c1 c2 c3 show ?thesis by simp
qed

end
